theory Spec2Isabelle
  imports Main
begin

section \<open>Text\<close>

text \<open>
  The script \<^verbatim>\<open>src/cli.js\<close> works on JavaScript strings. A string is modelled as a
  \<^typ>\<open>string\<close> whose characters are the code units below 256 (ASCII and the
  Latin-1 supplement); every statement below is about such strings.
\<close>

definition isWhiteSpace :: "char \<Rightarrow> bool" where
  \<comment> \<open>The code units below 256 that \<^verbatim>\<open>String.prototype.trim\<close> strips and that the
      regular expression class \<^verbatim>\<open>\s\<close> matches: TAB, LF, VT, FF, CR, SP and NBSP.\<close>
  "isWhiteSpace c = ((of_char c :: nat) \<in> {9, 10, 11, 12, 13, 32, 160})"

definition toLowerChar :: "char \<Rightarrow> char" where
  \<comment> \<open>\<^verbatim>\<open>toLowerCase\<close> on one code unit below 256: A to Z, and the Latin-1 capitals
      U+00C0 to U+00DE without the multiplication sign U+00D7, move up by 32.\<close>
  "toLowerChar c =
     (let n = (of_char c :: nat)
      in if (65 \<le> n \<and> n \<le> 90) \<or> (192 \<le> n \<and> n \<le> 222 \<and> n \<noteq> 215)
         then char_of (n + 32) else c)"

definition toLowerCase :: "string \<Rightarrow> string" where
  "toLowerCase s = map toLowerChar s"

definition trim :: "string \<Rightarrow> string" where
  \<comment> \<open>\<^verbatim>\<open>String.prototype.trim\<close>: white space is removed from both ends.\<close>
  "trim s = rev (dropWhile isWhiteSpace (rev (dropWhile isWhiteSpace s)))"

function splitWhiteSpace :: "string \<Rightarrow> string list" where
  \<comment> \<open>\<^verbatim>\<open>s.split(/\s+/)\<close>: the pieces between the maximal runs of white space. A run
      at either end leaves an empty piece there, and the empty string gives one empty
      piece.\<close>
  "splitWhiteSpace s =
     (let piece = takeWhile (\<lambda>c. \<not> isWhiteSpace c) s;
          rest = dropWhile (\<lambda>c. \<not> isWhiteSpace c) s
      in if rest = [] then [piece]
         else piece # splitWhiteSpace (dropWhile isWhiteSpace rest))"
  by pat_completeness auto
termination
proof (relation "measure length")
  show "wf (measure (length :: string \<Rightarrow> nat))" by simp
next
  fix s piece rest :: string
  assume r: "rest = dropWhile (\<lambda>c. \<not> isWhiteSpace c) s" and ne: "rest \<noteq> []"
  have "length (dropWhile isWhiteSpace rest) < length rest"
  proof (cases rest)
    case Nil
    with ne show ?thesis by simp
  next
    case (Cons c cs)
    have "isWhiteSpace (hd rest)"
      using ne hd_dropWhile [of "\<lambda>c. \<not> isWhiteSpace c" s] r by auto
    with Cons have "dropWhile isWhiteSpace rest = dropWhile isWhiteSpace cs" by simp
    moreover have "length (dropWhile isWhiteSpace cs) \<le> length cs"
      by (rule length_dropWhile_le)
    ultimately show ?thesis using Cons by simp
  qed
  moreover have "length rest \<le> length s"
    unfolding r by (rule length_dropWhile_le)
  ultimately show "(dropWhile isWhiteSpace rest, s) \<in> measure length" by simp
qed

declare splitWhiteSpace.simps [simp del]

fun join :: "string \<Rightarrow> string list \<Rightarrow> string" where
  \<comment> \<open>\<^verbatim>\<open>Array.prototype.join\<close> on an array of strings.\<close>
  "join sep [] = []"
| "join sep [x] = x"
| "join sep (x # y # ys) = x @ sep @ join sep (y # ys)"

subsection \<open>Utility function \<^verbatim>\<open>convertStringToProjectId\<close>\<close>

definition convertStringToProjectId :: "string \<Rightarrow> string" where
  "convertStringToProjectId projectName =
     (let splits = splitWhiteSpace (trim projectName);
          splits = map toLowerCase splits
      in join ''-'' splits)"


subsection \<open>String replacement\<close>

fun getSubstitution :: "string \<Rightarrow> string \<Rightarrow> nat \<Rightarrow> string \<Rightarrow> string" where
  \<comment> \<open>The replacement text that \<^verbatim>\<open>replace\<close> and \<^verbatim>\<open>replaceAll\<close> build from their
      second argument when the pattern is a string: \<^verbatim>\<open>$$\<close> stands for a dollar sign,
      \<^verbatim>\<open>$&\<close> for the matched text, \<^verbatim>\<open>$`\<close> for the text before the match and
      \<^verbatim>\<open>$'\<close> for the text after it; every other character stands for itself (a
      string pattern has no capture groups, so \<^verbatim>\<open>$1\<close> and \<^verbatim>\<open>$<\<close> are literal).\<close>
  "getSubstitution matched str position [] = []"
| "getSubstitution matched str position [c] = [c]"
| "getSubstitution matched str position (c # d # r) =
     (if c = CHR ''$'' then
        (if d = CHR ''$'' then CHR ''$'' # getSubstitution matched str position r
         else if d = CHR ''&'' then matched @ getSubstitution matched str position r
         else if d = CHR 0x60 then take position str @ getSubstitution matched str position r
         else if d = CHR 0x27
           then drop (position + length matched) str @ getSubstitution matched str position r
         else c # getSubstitution matched str position (d # r))
      else c # getSubstitution matched str position (d # r))"

function replaceAllFrom :: "string \<Rightarrow> string \<Rightarrow> string \<Rightarrow> nat \<Rightarrow> string \<Rightarrow> string" where
  \<comment> \<open>The scan of \<^verbatim>\<open>str.replaceAll(searchValue, replaceValue)\<close> from \<open>position\<close>, where
      \<open>rest\<close> is what is left of \<open>str\<close> there: matches are taken from left to right and
      do not overlap. An empty \<open>searchValue\<close> matches before every character and at the
      end.\<close>
  "replaceAllFrom searchValue replaceValue str position rest =
     (if searchValue = [] then
        getSubstitution searchValue str position replaceValue
          @ (case rest of [] \<Rightarrow> []
             | c # cs \<Rightarrow> c # replaceAllFrom searchValue replaceValue str (Suc position) cs)
      else if take (length searchValue) rest = searchValue then
        getSubstitution searchValue str position replaceValue
          @ replaceAllFrom searchValue replaceValue str (position + length searchValue)
              (drop (length searchValue) rest)
      else (case rest of [] \<Rightarrow> []
            | c # cs \<Rightarrow> c # replaceAllFrom searchValue replaceValue str (Suc position) cs))"
  by pat_completeness auto
termination
proof (relation "measure (\<lambda>(searchValue, replaceValue, str, position, rest). length rest)")
  fix searchValue replaceValue str :: string and position :: nat and rest :: string
  assume "searchValue \<noteq> []" and "take (length searchValue) rest = searchValue"
  then have "rest \<noteq> []" and "0 < length searchValue" by auto
  then show "((searchValue, replaceValue, str, position + length searchValue,
               drop (length searchValue) rest),
              searchValue, replaceValue, str, position, rest)
             \<in> measure (\<lambda>(searchValue, replaceValue, str, position, rest). length rest)"
    by simp
qed simp_all

declare replaceAllFrom.simps [simp del]

definition replaceAll :: "string \<Rightarrow> string \<Rightarrow> string \<Rightarrow> string" where
  "replaceAll str searchValue replaceValue = replaceAllFrom searchValue replaceValue str 0 str"

fun replaceFrom :: "string \<Rightarrow> string \<Rightarrow> string \<Rightarrow> nat \<Rightarrow> string \<Rightarrow> string" where
  \<comment> \<open>The scan of \<^verbatim>\<open>str.replace(searchValue, replaceValue)\<close>: only the first match is
      replaced.\<close>
  "replaceFrom searchValue replaceValue str position [] =
     (if searchValue = [] then getSubstitution searchValue str position replaceValue else [])"
| "replaceFrom searchValue replaceValue str position (c # cs) =
     (if take (length searchValue) (c # cs) = searchValue
      then getSubstitution searchValue str position replaceValue
             @ drop (length searchValue) (c # cs)
      else c # replaceFrom searchValue replaceValue str (Suc position) cs)"

definition replace :: "string \<Rightarrow> string \<Rightarrow> string \<Rightarrow> string" where
  "replace str searchValue replaceValue = replaceFrom searchValue replaceValue str 0 str"

subsection \<open>Numbers and dates as text\<close>

definition digitChar :: "nat \<Rightarrow> char" where
  "digitChar n = char_of (48 + n)"

fun decimal :: "nat \<Rightarrow> string" where
  \<comment> \<open>A natural number written in base ten, as a template literal writes it.\<close>
  "decimal n = (if n < 10 then [digitChar n] else decimal (n div 10) @ [digitChar (n mod 10)])"

declare decimal.simps [simp del]

record jsDate =
  year :: nat
  month :: nat
  day :: nat

definition toLocaleDateString :: "jsDate \<Rightarrow> string" where
  \<comment> \<open>\<^verbatim>\<open>toLocaleDateString("en-US")\<close> of a date whose local calendar day is given:
      month, day and year as plain decimal numbers separated by slashes.\<close>
  "toLocaleDateString d = decimal (month d) @ ''/'' @ decimal (day d) @ ''/'' @ decimal (year d)"

definition digitValue :: "nat \<Rightarrow> char \<Rightarrow> nat option" where
  \<comment> \<open>The value of a digit in radix 10 or 16.\<close>
  "digitValue radix c =
     (let n = (of_char c :: nat)
      in if 48 \<le> n \<and> n \<le> 57 then Some (n - 48)
         else if radix = 16 \<and> 97 \<le> n \<and> n \<le> 102 then Some (n - 87)
         else if radix = 16 \<and> 65 \<le> n \<and> n \<le> 70 then Some (n - 55)
         else None)"

definition parseInt :: "string \<Rightarrow> int option" where
  \<comment> \<open>\<^verbatim>\<open>Number.parseInt\<close> with no radix argument; \<open>None\<close> is NaN. Leading white space is
      skipped, a sign is read, a prefix \<^verbatim>\<open>0x\<close> selects radix 16, and the longest run of
      digits is the value. The value is kept exact: rounding a long run of digits to a
      double gives an integer far above any array length, so the check of the index in
      \<^verbatim>\<open>userInterface\<close> decides the same way.\<close>
  "parseInt inputString =
     (let s = dropWhile isWhiteSpace inputString;
          sign = (if take 1 s = ''-'' then - 1 else (1 :: int));
          s = (if take 1 s = ''-'' \<or> take 1 s = ''+'' then drop 1 s else s);
          hex = (take 2 s = ''0x'' \<or> take 2 s = ''0X'');
          radix = (if hex then 16 else (10 :: nat));
          s = (if hex then drop 2 s else s);
          z = takeWhile (\<lambda>c. digitValue radix c \<noteq> None) s
      in if z = [] then None
         else Some (sign * int (foldl (\<lambda>acc c. case digitValue radix c of
                                                    None \<Rightarrow> acc
                                                  | Some d \<Rightarrow> acc * radix + d) 0 z)))"

section \<open>The script and its surroundings\<close>

text \<open>
  The script talks to a terminal, to the network, to \<^verbatim>\<open>git\<close> and to the file system.
  Each function of the script is modelled as a function of the \<open>world\<close> it runs in; it
  gives back the list of the effects it performs, in order, and the way it completes: it
  returns a value, it throws (for an \<^verbatim>\<open>async\<close> function: its promise is rejected), or
  it ends the process through \<^verbatim>\<open>process.exit\<close>.
\<close>

record template =
  name :: string
  description :: string
  htmlUrl :: string
  gitUrl :: string

record projectSetup =
  template :: template
  id' :: string
  name' :: string
  userName :: string
  userEmail :: string

record fileConfig =
  file' :: string
  keywords' :: "string list"

datatype event =
    Log string
  | LogError string
  | Clear
  | Question string
  | Fetch string
  | Exec string
  | ExistsSync string
  | ReadFileSync string
  | ReadFile string
  | WriteFile string string
  | Unlink string
  | Rm string

datatype 'a completion =
    Returns 'a
  | Throws string
  | Exits nat

type_synonym 'a run = "event list \<times> 'a completion"

datatype settled = Fulfilled | Rejected string

record world =
  fetchTemplates :: "string + template list"
  inputCloses :: "nat option"
  answerTemplate :: string
  answerName :: string
  answerConfirm :: string
  gitUserName :: "string + string"
  gitUserEmail :: "string + string"
  cwd :: string
  pathJoin :: "string \<Rightarrow> string \<Rightarrow> string"
  pathResolve :: "string \<Rightarrow> string \<Rightarrow> string"
  existsSync :: "string \<Rightarrow> bool"
  gitClone :: "string option"
  templateJson :: "string + fileConfig list"
  readFile :: "string \<Rightarrow> string + string"
  writeFile :: "string \<Rightarrow> string option"
  unlink :: "string \<Rightarrow> string option"
  rm :: "string \<Rightarrow> string option"
  today :: jsDate

text \<open>
  The records \<open>template\<close>, \<open>projectSetup\<close> (the fields \<^verbatim>\<open>template\<close>, \<^verbatim>\<open>id\<close>, \<^verbatim>\<open>name\<close>,
  \<^verbatim>\<open>userName\<close>, \<^verbatim>\<open>userEmail\<close> of the object that \<^verbatim>\<open>userInterface\<close> fills in) and
  \<open>fileConfig\<close> (one entry of the \<^verbatim>\<open>project\<close> array of \<^verbatim>\<open>__template.json\<close>) are the
  objects of the script.

  An \<open>event\<close> is one effect: \<^verbatim>\<open>console.log\<close>, \<^verbatim>\<open>console.error\<close>, \<^verbatim>\<open>console.clear\<close>,
  \<^verbatim>\<open>rl.question\<close> with its prompt, \<^verbatim>\<open>fetch\<close> of a URL, \<^verbatim>\<open>exec\<close> of a shell command,
  \<^verbatim>\<open>fs.existsSync\<close>, \<^verbatim>\<open>fs.readFileSync\<close>, \<^verbatim>\<open>fs.promises.readFile\<close>,
  \<^verbatim>\<open>fs.promises.writeFile\<close> with the data written, \<^verbatim>\<open>fs.promises.unlink\<close> and the
  recursive \<^verbatim>\<open>fs.promises.rm\<close>. A \<open>completion\<close> is a returned value, a thrown error
  (the string is its \<^verbatim>\<open>message\<close>) or \<^verbatim>\<open>process.exit\<close> with a code. \<open>settled\<close> is the
  outcome of a promise handed to \<^verbatim>\<open>Promise.allSettled\<close>.

  The \<open>world\<close> fixes what the surroundings answer:
  \<^item> \<open>fetchTemplates\<close>: what the search request of \<^verbatim>\<open>fetchAvailableTemplates\<close> yields,
    the templates mapped from \<^verbatim>\<open>response.items\<close> or the message of the error thrown;
  \<^item> \<open>inputCloses\<close>: \<open>None\<close> when the input stream stays open for the whole run;
    \<open>Some k\<close> when it closes after \<open>k\<close> effects have been started (\<open>Some 0\<close>: the
    standard input is at its end from the start);
  \<^item> \<open>answerTemplate\<close>, \<open>answerName\<close>, \<open>answerConfirm\<close>: the line entered at the first,
    second and third question, if the input stream is still open then;
  \<^item> \<open>gitUserName\<close>, \<open>gitUserEmail\<close>: the standard output of \<^verbatim>\<open>git config user.name\<close>
    and \<^verbatim>\<open>git config user.email\<close>, or the error of the failed command;
  \<^item> \<open>cwd\<close>, \<open>pathJoin\<close>, \<open>pathResolve\<close>: \<^verbatim>\<open>process.cwd()\<close>, \<^verbatim>\<open>path.join\<close> and
    \<^verbatim>\<open>path.resolve\<close> on two arguments;
  \<^item> \<open>existsSync\<close>: \<^verbatim>\<open>fs.existsSync\<close> on the path as the script passes it;
  \<^item> \<open>gitClone\<close>: \<open>None\<close> when the clone command succeeds, else the message of its error;
  \<^item> \<open>templateJson\<close>: the \<^verbatim>\<open>project\<close> array of the parsed \<^verbatim>\<open>__template.json\<close>, or the
    message of the error thrown by reading the file, by \<^verbatim>\<open>JSON.parse\<close> or by taking the
    array; the entries are objects with a string \<^verbatim>\<open>file\<close> and an array of strings
    \<^verbatim>\<open>keywords\<close>;
  \<^item> \<open>readFile\<close>: the text of a file after the clone, or the error of the read;
  \<^item> \<open>writeFile\<close>, \<open>unlink\<close>, \<open>rm\<close>: \<open>None\<close> when the operation on the path succeeds,
    else the message of its error;
  \<^item> \<open>today\<close>: the local calendar day of \<^verbatim>\<open>new Date()\<close>.
\<close>

definition andThen :: "'a run \<Rightarrow> ('a \<Rightarrow> 'b run) \<Rightarrow> 'b run" where
  \<comment> \<open>Sequencing of two statements: the second runs only when the first returns.\<close>
  "andThen m f =
     (case m of
        (tr, Returns x) \<Rightarrow> (case f x of (tr', r) \<Rightarrow> (tr @ tr', r))
      | (tr, Throws msg) \<Rightarrow> (tr, Throws msg)
      | (tr, Exits n) \<Rightarrow> (tr, Exits n))"

definition tryCatch :: "'a run \<Rightarrow> (string \<Rightarrow> 'a run) \<Rightarrow> 'a run" where
  \<comment> \<open>\<^verbatim>\<open>try { m } catch (error) { h(error.message) }\<close>\<close>
  "tryCatch m h =
     (case m of
        (tr, Throws msg) \<Rightarrow> (case h msg of (tr', r) \<Rightarrow> (tr @ tr', r))
      | (tr, r) \<Rightarrow> (tr, r))"

definition emit :: "event \<Rightarrow> unit run" where
  "emit e = ([e], Returns ())"

definition return :: "'a \<Rightarrow> 'a run" where
  "return x = ([], Returns x)"

definition processExit :: "nat \<Rightarrow> 'a run" where
  "processExit code = ([], Exits code)"

definition settle :: "string option \<Rightarrow> settled" where
  "settle outcome = (case outcome of None \<Rightarrow> Fulfilled | Some msg \<Rightarrow> Rejected msg)"

definition question :: "string \<Rightarrow> string \<Rightarrow> string run" where
  \<comment> \<open>\<^verbatim>\<open>await rl.question(prompt)\<close>, given the line that is entered. What happens when
      the input stream closes, at a question or at any other time, is in \<open>process\<close>
      below.\<close>
  "question prompt answer = ([Question prompt], Returns answer)"

definition rlClose :: "unit run" where
  \<comment> \<open>\<^verbatim>\<open>rl.close()\<close> emits \<^verbatim>\<open>close\<close>, and the handler registered on the interface
      (lines 16 to 18) ends the process with code 0.\<close>
  "rlClose = processExit 0"

subsection \<open>User interface helpers\<close>

definition blue :: "string \<Rightarrow> string" where
  \<comment> \<open>The escape sequences \<^verbatim>\<open>\x1b[94m\<close> and \<^verbatim>\<open>\x1b[0m\<close> around a text.\<close>
  "blue s = [CHR 0x1B] @ ''[94m'' @ s @ [CHR 0x1B] @ ''[0m''"

fun printTemplatesFrom :: "nat \<Rightarrow> template list \<Rightarrow> event list" where
  \<comment> \<open>The loop of \<^verbatim>\<open>printAvailableTemplates\<close> from index \<open>i\<close> on.\<close>
  "printTemplatesFrom i [] = []"
| "printTemplatesFrom i (t # ts) =
     [Log (blue (''['' @ decimal i @ ''] '' @ name t @ '' '')),
      Log (''    '' @ description t @ [CHR 0x0A])]
     @ printTemplatesFrom (Suc i) ts"

definition undefinedLength :: string where
  \<comment> \<open>The message of the TypeError thrown by \<^verbatim>\<open>templates.length\<close> when \<^verbatim>\<open>templates\<close> is
      \<^verbatim>\<open>undefined\<close>.\<close>
  "undefinedLength =
     ''Cannot read properties of undefined (reading '' @ [CHR 0x27] @ ''length'' @ [CHR 0x27]
     @ '')''"

definition printAvailableTemplates :: "template list option \<Rightarrow> unit run" where
  \<comment> \<open>\<open>None\<close> is \<^verbatim>\<open>undefined\<close>: the loop condition reads its \<^verbatim>\<open>length\<close> and throws.\<close>
  "printAvailableTemplates templates =
     andThen (emit (Log ''Available project templates: ''))
       (\<lambda>_. case templates of
               None \<Rightarrow> ([], Throws undefinedLength)
             | Some ts \<Rightarrow> (printTemplatesFrom 0 ts, Returns ()))"

definition getProjectTargetDirectory :: "world \<Rightarrow> projectSetup \<Rightarrow> string" where
  "getProjectTargetDirectory w projectSetup = pathJoin w (cwd w) (id' projectSetup)"

definition getSummaryString :: "world \<Rightarrow> projectSetup \<Rightarrow> string" where
  "getSummaryString w projectSetup =
     ''Confirm new project:'' @ [CHR 0x0A]
     @ ''Project ID:    '' @ blue (id' projectSetup) @ [CHR 0x0A]
     @ ''Project Name:  '' @ blue (name' projectSetup) @ [CHR 0x0A]
     @ ''Project Type:  '' @ blue (name (template projectSetup)) @ [CHR 0x0A]
     @ ''User Name:     '' @ blue (userName projectSetup) @ [CHR 0x0A]
     @ ''User Email:    '' @ blue (userEmail projectSetup) @ [CHR 0x0A]
     @ ''Location:      '' @ blue (getProjectTargetDirectory w projectSetup) @ [CHR 0x0A]
     @ ''Continue and create project (Enter)?'' @ [CHR 0x0A]"

subsection \<open>Utility functions\<close>

definition checkAvailabilityOfDirectory :: "world \<Rightarrow> string \<Rightarrow> unit run" where
  "checkAvailabilityOfDirectory w targetDirectory =
     (if existsSync w targetDirectory
      then ([ExistsSync targetDirectory],
            Throws (''Target directory '' @ [CHR 0x27] @ targetDirectory @ [CHR 0x27]
                    @ '' already exists'' @ [CHR 0x27]))
      else ([ExistsSync targetDirectory], Returns ()))"

definition executeShell :: "string \<Rightarrow> string + string \<Rightarrow> string run" where
  \<comment> \<open>The promise of \<^verbatim>\<open>executeShell(command)\<close>, given what the command yields: on an
      error the error is printed and the promise is rejected, else it is resolved with
      the standard output.\<close>
  "executeShell command outcome =
     (case outcome of
        Inl err \<Rightarrow> ([Exec command, LogError err], Throws err)
      | Inr stdout \<Rightarrow> ([Exec command], Returns stdout))"

definition getCurrentUserInfo :: "world \<Rightarrow> (string \<times> string) run" where
  \<comment> \<open>The pair is \<^verbatim>\<open>{gitName, gitEmail}\<close>.\<close>
  "getCurrentUserInfo w =
     tryCatch
       (andThen (executeShell ''git config user.name'' (gitUserName w))
          (\<lambda>nameOut. andThen (executeShell ''git config user.email'' (gitUserEmail w))
             (\<lambda>emailOut. return (replace nameOut [CHR 0x0A] [],
                                   replace emailOut [CHR 0x0A] []))))
       (\<lambda>_. return (''Unknown'', []))"

definition fetchAvailableTemplates :: "world \<Rightarrow> template list run" where
  \<comment> \<open>The query is \<^verbatim>\<open>encodeURIComponent("user:jburmeis project-template in:topics")\<close>.\<close>
  "fetchAvailableTemplates w =
     ([Fetch (''https://api.github.com/search/repositories?q=''
              @ ''user%3Ajburmeis%20project-template%20in%3Atopics'')],
      case fetchTemplates w of Inl msg \<Rightarrow> Throws msg | Inr templates \<Rightarrow> Returns templates)"

subsection \<open>Create project\<close>

definition downloadProjectTemplateData :: "world \<Rightarrow> string \<Rightarrow> string \<Rightarrow> unit run" where
  \<comment> \<open>The promise of \<^verbatim>\<open>exec\<close> is returned without \<^verbatim>\<open>await\<close>, so a failing clone does
      not reach the \<^verbatim>\<open>catch\<close> of this function (lines 138 to 141): the rejection goes to
      the caller. \<^verbatim>\<open>exec\<close> hands the command to a shell, which expands \<^verbatim>\<open>$$\<close>, \<^verbatim>\<open>$name\<close>
      and backquotes inside the double quotes: for a target directory that holds one of
      them the clone lands in another directory, and the \<open>world\<close> of such a run has the
      error of the missing manifest as its \<open>templateJson\<close>.\<close>
  "downloadProjectTemplateData w targetDirectory templateGitUrl =
     ([Exec (''git clone --depth 1 '' @ templateGitUrl @ '' '' @ [CHR 0x22] @ targetDirectory
             @ [CHR 0x22])],
      case gitClone w of None \<Rightarrow> Returns () | Some msg \<Rightarrow> Throws msg)"

definition filterKeyword :: "world \<Rightarrow> projectSetup \<Rightarrow> string \<Rightarrow> string \<Rightarrow> string" where
  \<comment> \<open>The \<^verbatim>\<open>switch\<close> of \<^verbatim>\<open>filterFile\<close> for one keyword.\<close>
  "filterKeyword w projectSetup fileData key =
     (if key = ''webstart-project-id'' then replaceAll fileData key (id' projectSetup)
      else if key = ''webstart-project-name'' then replaceAll fileData key (name' projectSetup)
      else if key = ''webstart-project-author''
        then replaceAll fileData key
               (userName projectSetup @ '' <'' @ userEmail projectSetup @ ''>'')
      else if key = ''webstart-project-setupdate''
        then replaceAll fileData key (toLocaleDateString (today w) @ '' (en-US)'')
      else if key = ''webstart-template-url''
        then replaceAll fileData key (htmlUrl (template projectSetup))
      else if key = ''@webstart'' then replaceAll fileData key (''@'' @ id' projectSetup)
      else fileData)"

definition filterFileData :: "world \<Rightarrow> projectSetup \<Rightarrow> string \<Rightarrow> string list \<Rightarrow> string" where
  \<comment> \<open>The loop of \<^verbatim>\<open>filterFile\<close> over the keywords of an entry (lines 153 to 174).\<close>
  "filterFileData w projectSetup fileData keys = foldl (filterKeyword w projectSetup) fileData keys"

definition filterFile :: "world \<Rightarrow> fileConfig \<Rightarrow> string \<Rightarrow> projectSetup \<Rightarrow> event list \<times> settled" where
  \<comment> \<open>The effects of one call and how its promise settles.\<close>
  "filterFile w fileConfig dir projectSetup =
     (let filepath = pathResolve w dir (file' fileConfig)
      in case readFile w filepath of
           Inl msg \<Rightarrow> ([ReadFile filepath], Rejected msg)
         | Inr fileData \<Rightarrow>
             ([ReadFile filepath,
               WriteFile filepath (filterFileData w projectSetup fileData (keywords' fileConfig))],
              settle (writeFile w filepath)))"

definition filterFiles :: "world \<Rightarrow> string \<Rightarrow> projectSetup \<Rightarrow> settled list run" where
  \<comment> \<open>\<^verbatim>\<open>Promise.allSettled\<close> waits for every promise and is fulfilled with the list of
      their outcomes. The calls of \<^verbatim>\<open>filterFile\<close> overlap in time; their effects are
      listed entry by entry, and each entry reads the file as it is after the clone.\<close>
  "filterFiles w dir projectSetup =
     (case templateJson w of
        Inl msg \<Rightarrow> ([ReadFileSync (pathResolve w dir ''__template.json'')], Throws msg)
      | Inr project \<Rightarrow>
          (let filePromises = map (\<lambda>fileEntry. filterFile w fileEntry dir projectSetup) project
           in (ReadFileSync (pathResolve w dir ''__template.json'') # concat (map fst filePromises),
               Returns (map snd filePromises))))"

definition removeTemplateFiles :: "world \<Rightarrow> string \<Rightarrow> settled list run" where
  "removeTemplateFiles w filepath =
     ([Unlink (pathResolve w filepath ''__template.json''),
       Unlink (pathResolve w filepath ''LICENSE''),
       Rm (pathResolve w filepath ''.git'')],
      Returns [settle (unlink w (pathResolve w filepath ''__template.json'')),
               settle (unlink w (pathResolve w filepath ''LICENSE'')),
               settle (rm w (pathResolve w filepath ''.git''))])"

definition successMessage :: string where
  "successMessage =
     [CHR 0x0A] @ ''Your project has been created. ''
     @ ''Please consult the README file how to proceed from here.''"

definition createProject :: "world \<Rightarrow> projectSetup \<Rightarrow> unit run" where
  "createProject w projectSetup =
     (let workingDir = getProjectTargetDirectory w projectSetup
      in tryCatch
           (andThen (checkAvailabilityOfDirectory w (id' projectSetup))
           (\<lambda>_. andThen (emit (Log ''Downloading template...''))
           (\<lambda>_. andThen (downloadProjectTemplateData w workingDir
                           (gitUrl (template projectSetup)))
           (\<lambda>_. andThen (emit (Log ''Filtering...''))
           (\<lambda>_. andThen (filterFiles w workingDir projectSetup)
           (\<lambda>_. andThen (emit (Log ''Cleanup...''))
           (\<lambda>_. andThen (removeTemplateFiles w workingDir)
           (\<lambda>_. emit (Log successMessage)))))))))
           (\<lambda>message. andThen (emit (LogError message)) (\<lambda>_. processExit 9)))"

subsection \<open>User interface\<close>

definition userInterfaceLoadTemplates :: "world \<Rightarrow> template list option run" where
  \<comment> \<open>The bare \<^verbatim>\<open>return\<close> of line 41 gives \<^verbatim>\<open>undefined\<close>, here \<open>None\<close>.\<close>
  "userInterfaceLoadTemplates w =
     andThen (emit (Log ''Fetching available project templates...''))
     (\<lambda>_. andThen (fetchAvailableTemplates w)
     (\<lambda>templates.
        if length templates = 0
        then andThen (emit (Log ''No project templates available'')) (\<lambda>_. return None)
        else andThen (emit Clear) (\<lambda>_. return (Some templates))))"

definition templateIndex :: "template list \<Rightarrow> string \<Rightarrow> nat option" where
  \<comment> \<open>Lines 59 and 60: the index read from the answer, \<open>None\<close> when the condition of
      line 60 holds (the parsed value is NaN, negative, or not below the number of
      templates).\<close>
  "templateIndex templates answer =
     (case parseInt answer of
        None \<Rightarrow> None
      | Some templateIdx \<Rightarrow>
          if templateIdx < 0 \<or> templateIdx \<ge> int (length templates) then None
          else Some (nat templateIdx))"

definition invalidInput :: "string \<Rightarrow> 'a run" where
  \<comment> \<open>\<^verbatim>\<open>console.error(message); process.exit(9);\<close>\<close>
  "invalidInput message = andThen (emit (LogError message)) (\<lambda>_. processExit 9)"

definition userInterface :: "world \<Rightarrow> template list option \<Rightarrow> unit run" where
  \<comment> \<open>With \<open>None\<close> (\<^verbatim>\<open>undefined\<close>) for \<^verbatim>\<open>templates\<close>, \<^verbatim>\<open>printAvailableTemplates\<close> throws and
      nothing after it runs.\<close>
  "userInterface w templates =
     andThen (printAvailableTemplates templates)
     (\<lambda>_. case templates of
        None \<Rightarrow> ([], Throws undefinedLength)
      | Some ts \<Rightarrow>
     andThen (question ''Select project template (type index number): '' (answerTemplate w))
     (\<lambda>answer.
        case templateIndex ts answer of
          None \<Rightarrow> invalidInput ''Invalid input - Expected valid template index''
        | Some templateIdx \<Rightarrow>
     andThen (question ''Enter project name: '' (answerName w))
     (\<lambda>answer.
        if length (trim answer) = 0
        then invalidInput ''Invalid input - Expected non-empty project name''
        else
     andThen (getCurrentUserInfo w)
     (\<lambda>(gitName, gitEmail).
        let projectSetup =
              \<lparr>template = ts ! templateIdx,
               id' = convertStringToProjectId (trim answer),
               name' = trim answer,
               userName = gitName,
               userEmail = gitEmail\<rparr>
        in andThen (emit Clear)
           (\<lambda>_. andThen (question (getSummaryString w projectSetup) (answerConfirm w))
           (\<lambda>_. andThen (emit Clear)
           (\<lambda>_. andThen (createProject w projectSetup)
           (\<lambda>_. rlClose))))))))"

definition main :: "world \<Rightarrow> unit run" where
  "main w = andThen (userInterfaceLoadTemplates w) (\<lambda>templates. userInterface w templates)"

datatype ending =
    ExitCode nat
  | UnhandledRejection string

definition script :: "world \<Rightarrow> event list \<times> ending" where
  \<comment> \<open>Line 23, \<^verbatim>\<open>main().then(() => process.exit())\<close>, in a run during which the input
      stream stays open: when \<^verbatim>\<open>main\<close> returns, the process exits with the default
      code 0; when its promise is rejected, nothing handles the rejection.\<close>
  "script w =
     (case main w of
        (tr, Returns _) \<Rightarrow> (tr, ExitCode 0)
      | (tr, Exits code) \<Rightarrow> (tr, ExitCode code)
      | (tr, Throws msg) \<Rightarrow> (tr, UnhandledRejection msg))"




definition exitStatus :: "ending \<Rightarrow> nat" where
  \<comment> \<open>The status of the process: Node ends a process with status 1 on an unhandled
      rejection.\<close>
  "exitStatus t = (case t of ExitCode code \<Rightarrow> code | UnhandledRejection _ \<Rightarrow> 1)"

section \<open>Notions used in the statements\<close>

fun tokensFrom :: "string \<Rightarrow> string \<Rightarrow> string list" where
  \<comment> \<open>The tokens of a text: its maximal runs of characters that are not white space,
      from left to right. \<open>cur\<close> is the token being read.\<close>
  "tokensFrom cur [] = (if cur = [] then [] else [cur])"
| "tokensFrom cur (c # cs) =
     (if isWhiteSpace c then (if cur = [] then tokensFrom [] cs else cur # tokensFrom [] cs)
      else tokensFrom (cur @ [c]) cs)"

definition deriveProjectId :: "string \<Rightarrow> string" where
  \<comment> \<open>The specification's \<^verbatim>\<open>deriveProjectId\<close>, from its words: the input is trimmed and
      split on runs of white space, each token is put in lower case, and the tokens are
      joined with a hyphen.\<close>
  "deriveProjectId rawName = join ''-'' (map toLowerCase (tokensFrom [] (trim rawName)))"


definition phase :: "event \<Rightarrow> nat option" where
  \<comment> \<open>The phase of the creation an effect belongs to: 0 the check of the directory,
      1 the clone, 2 the reading of the manifest, 3 the substitution in a file,
      4 the removal of the template's own files. Console output has no phase.\<close>
  "phase e =
     (case e of
        ExistsSync _ \<Rightarrow> Some 0
      | Exec command \<Rightarrow> if take 9 command = ''git clone'' then Some 1 else None
      | ReadFileSync _ \<Rightarrow> Some 2
      | ReadFile _ \<Rightarrow> Some 3
      | WriteFile _ _ \<Rightarrow> Some 3
      | Unlink _ \<Rightarrow> Some 4
      | Rm _ \<Rightarrow> Some 4
      | _ \<Rightarrow> None)"

fun phases :: "event list \<Rightarrow> nat list" where
  "phases [] = []"
| "phases (e # es) = (case phase e of None \<Rightarrow> phases es | Some p \<Rightarrow> p # phases es)"

definition exampleTemplate :: template where
  "exampleTemplate =
     \<lparr>name = ''web'', description = ''A web app'',
      htmlUrl = ''https://github.com/jburmeis/web'',
      gitUrl = ''https://github.com/jburmeis/web.git''\<rparr>"

definition exampleWorld :: world where
  \<comment> \<open>A run in which everything succeeds, except that the first file of the manifest
      does not exist.\<close>
  "exampleWorld =
     \<lparr>fetchTemplates = Inr [exampleTemplate],
      inputCloses = None,
      answerTemplate = ''0'',
      answerName = ''  My Cool App  '',
      answerConfirm = [],
      gitUserName = Inr (''Jo'' @ [CHR 0x0A]),
      gitUserEmail = Inr (''jo@example.org'' @ [CHR 0x0A]),
      cwd = ''/home/jo'',
      pathJoin = (\<lambda>a b. a @ ''/'' @ b),
      pathResolve = (\<lambda>a b. a @ ''/'' @ b),
      existsSync = (\<lambda>_. False),
      gitClone = None,
      templateJson =
        Inr [\<lparr>file' = ''missing.txt'', keywords' = [''webstart-project-name'']\<rparr>,
             \<lparr>file' = ''README.md'',
              keywords' = [''webstart-project-id'', ''webstart-project-setupdate'']\<rparr>],
      readFile =
        (\<lambda>p. if p = ''/home/jo/my-cool-app/README.md''
             then Inr (''# webstart-project-id'' @ [CHR 0x0A]
                       @ ''Created webstart-project-setupdate'')
             else Inl ''ENOENT''),
      writeFile = (\<lambda>_. None),
      unlink = (\<lambda>_. None),
      rm = (\<lambda>_. None),
      today = \<lparr>year = 2024, month = 1, day = 5\<rparr>\<rparr>"

definition exampleSetup :: projectSetup where
  \<comment> \<open>The object that \<^verbatim>\<open>userInterface\<close> fills in for a project whose name holds a
      dollar sign followed by an ampersand.\<close>
  "exampleSetup =
     \<lparr>template = exampleTemplate,
      id' = convertStringToProjectId ''Big $& Deal'',
      name' = ''Big $& Deal'',
      userName = ''Jo'',
      userEmail = ''jo@example.org''\<rparr>"

definition exampleCreated :: projectSetup where
  \<comment> \<open>The object that \<^verbatim>\<open>userInterface\<close> fills in during the run in \<open>exampleWorld\<close>.\<close>
  "exampleCreated =
     \<lparr>template = exampleTemplate,
      id' = ''my-cool-app'',
      name' = ''My Cool App'',
      userName = ''Jo'',
      userEmail = ''jo@example.org''\<rparr>"

function replaceEvery :: "string \<Rightarrow> string \<Rightarrow> string \<Rightarrow> string" where
  \<comment> \<open>Every occurrence of a non-empty keyword in a text replaced by a value, taken as it
      is: occurrences are found from left to right and do not overlap.\<close>
  "replaceEvery key val [] = []"
| "replaceEvery key val (c # cs) =
     (if key \<noteq> [] \<and> take (length key) (c # cs) = key
      then val @ replaceEvery key val (drop (length key) (c # cs))
      else c # replaceEvery key val cs)"
  by pat_completeness auto
termination
  by (relation "measure (\<lambda>(key, val, rest). length rest)") auto

definition wizardEvents :: "world \<Rightarrow> template list \<Rightarrow> projectSetup \<Rightarrow> event list" where
  \<comment> \<open>The effects of a run up to the call of \<^verbatim>\<open>createProject\<close>, when the catalog is
      \<open>ts\<close> and every question is answered.\<close>
  "wizardEvents w ts projectSetup =
     [Log ''Fetching available project templates...''] @ fst (fetchAvailableTemplates w)
     @ [Clear, Log ''Available project templates: ''] @ printTemplatesFrom 0 ts
     @ [Question ''Select project template (type index number): '',
        Question ''Enter project name: '']
     @ fst (getCurrentUserInfo w)
     @ [Clear, Question (getSummaryString w projectSetup), Clear]"

definition wizardAnswers :: "world \<Rightarrow> template list \<Rightarrow> nat \<Rightarrow> string \<Rightarrow> bool" where
  \<comment> \<open>The catalog \<open>ts\<close> is not empty, the first answer selects the template at index \<open>k\<close>,
      and the second answer is \<open>n\<close> and is not blank.\<close>
  "wizardAnswers w ts k n =
     (fetchTemplates w = Inr ts \<and> ts \<noteq> []
      \<and> templateIndex ts (answerTemplate w) = Some k
      \<and> answerName w = n \<and> trim n \<noteq> [])"


definition endingOf :: "'a completion \<Rightarrow> ending" where
  \<comment> \<open>How the process ends when \<^verbatim>\<open>userInterface\<close> has reached \<^verbatim>\<open>createProject\<close> and that call
      completes in the given way: after a return, \<^verbatim>\<open>rl.close()\<close> ends it with code 0.\<close>
  "endingOf r =
     (case r of
        Returns _ \<Rightarrow> ExitCode 0
      | Throws msg \<Rightarrow> UnhandledRejection msg
      | Exits code \<Rightarrow> ExitCode code)"

section \<open>Project identity\<close>

lemma toLowerChar_idem: "toLowerChar (toLowerChar c) = toLowerChar c"
  by (auto simp add: toLowerChar_def Let_def)

lemma toLowerChar_not_space: "\<not> isWhiteSpace c \<Longrightarrow> \<not> isWhiteSpace (toLowerChar c)"
  by (auto simp add: toLowerChar_def isWhiteSpace_def Let_def)

lemma hyphen_lower: "toLowerChar (CHR ''-'') = CHR ''-''" "\<not> isWhiteSpace (CHR ''-'')"
  by (simp_all add: toLowerChar_def isWhiteSpace_def)

lemma splitWhiteSpace_unfold:
  "splitWhiteSpace s =
     (if dropWhile (\<lambda>c. \<not> isWhiteSpace c) s = [] then [takeWhile (\<lambda>c. \<not> isWhiteSpace c) s]
      else takeWhile (\<lambda>c. \<not> isWhiteSpace c) s
             # splitWhiteSpace (dropWhile isWhiteSpace (dropWhile (\<lambda>c. \<not> isWhiteSpace c) s)))"
  by (subst splitWhiteSpace.simps) (simp only: Let_def)

lemma splitWhiteSpace_last:
  assumes "dropWhile (\<lambda>c. \<not> isWhiteSpace c) s = []"
  shows "splitWhiteSpace s = [takeWhile (\<lambda>c. \<not> isWhiteSpace c) s]"
  by (subst splitWhiteSpace_unfold) (simp add: assms)

lemma splitWhiteSpace_more:
  assumes "dropWhile (\<lambda>c. \<not> isWhiteSpace c) s \<noteq> []"
  shows "splitWhiteSpace s = takeWhile (\<lambda>c. \<not> isWhiteSpace c) s
           # splitWhiteSpace (dropWhile isWhiteSpace (dropWhile (\<lambda>c. \<not> isWhiteSpace c) s))"
  by (subst splitWhiteSpace_unfold) (simp only: assms if_False)

lemma splitWhiteSpace_pieces:
  "\<forall>p\<in>set (splitWhiteSpace s). \<forall>c\<in>set p. \<not> isWhiteSpace c"
proof (induction s rule: splitWhiteSpace.induct)
  case (1 s)
  define piece where "piece = takeWhile (\<lambda>c. \<not> isWhiteSpace c) s"
  define rest where "rest = dropWhile (\<lambda>c. \<not> isWhiteSpace c) s"
  have pn: "\<forall>c\<in>set piece. \<not> isWhiteSpace c"
    unfolding piece_def by (blast dest: set_takeWhileD)
  show ?case
  proof (cases "rest = []")
    case True
    then have "splitWhiteSpace s = [piece]"
      unfolding piece_def rest_def by (rule splitWhiteSpace_last)
    with pn show ?thesis by simp
  next
    case False
    then have "splitWhiteSpace s = piece # splitWhiteSpace (dropWhile isWhiteSpace rest)"
      unfolding piece_def rest_def by (rule splitWhiteSpace_more)
    moreover have "\<forall>p\<in>set (splitWhiteSpace (dropWhile isWhiteSpace rest)).
                     \<forall>c\<in>set p. \<not> isWhiteSpace c"
      using "1.IH" [OF piece_def rest_def False] .
    ultimately show ?thesis using pn by simp
  qed
qed

lemma splitWhiteSpace_nonspace:
  assumes "\<forall>c\<in>set s. \<not> isWhiteSpace c"
  shows "splitWhiteSpace s = [s]"
proof -
  have "takeWhile (\<lambda>c. \<not> isWhiteSpace c) s = s"
    using assms by (simp add: takeWhile_eq_all_conv)
  moreover have "dropWhile (\<lambda>c. \<not> isWhiteSpace c) s = []" using assms by simp
  ultimately show ?thesis using splitWhiteSpace_last [of s] by simp
qed

lemma trim_nonspace:
  assumes "\<forall>c\<in>set s. \<not> isWhiteSpace c"
  shows "trim s = s"
proof -
  have a: "dropWhile isWhiteSpace s = s" using assms by (cases s) simp_all
  have "dropWhile isWhiteSpace (rev s) = rev s"
    using assms by (cases "rev s") (simp, metis dropWhile.simps(2) list.set_intros(1) set_rev)
  with a show ?thesis by (simp add: trim_def)
qed

lemma trim_ends:
  assumes "trim s \<noteq> []"
  shows "\<not> isWhiteSpace (hd (trim s))" and "\<not> isWhiteSpace (last (trim s))"
proof -
  define y where "y = dropWhile isWhiteSpace s"
  define z where "z = dropWhile isWhiteSpace (rev y)"
  have t: "trim s = rev z" by (simp add: trim_def y_def z_def)
  with assms have zne: "z \<noteq> []" by simp
  then have "\<not> isWhiteSpace (hd z)" unfolding z_def by (rule hd_dropWhile)
  then show "\<not> isWhiteSpace (last (trim s))" using zne by (simp add: t last_rev)
  have "rev y = takeWhile isWhiteSpace (rev y) @ z" by (simp add: z_def)
  then have "y = rev z @ rev (takeWhile isWhiteSpace (rev y))"
    by (metis rev_append rev_rev_ident)
  then have hy: "hd y = hd (rev z)" using zne by (metis hd_append2 rev_is_Nil_conv)
  have "y \<noteq> []" using zne z_def by auto
  then have "\<not> isWhiteSpace (hd y)" unfolding y_def by (rule hd_dropWhile)
  then show "\<not> isWhiteSpace (hd (trim s))" by (simp add: t hy)
qed

lemma trim_decompose:
  "\<exists>a b. s = a @ trim s @ b \<and> (\<forall>c\<in>set a. isWhiteSpace c) \<and> (\<forall>c\<in>set b. isWhiteSpace c)"
proof -
  define y where "y = dropWhile isWhiteSpace s"
  define z where "z = dropWhile isWhiteSpace (rev y)"
  have t: "trim s = rev z" by (simp add: trim_def y_def z_def)
  have "rev y = takeWhile isWhiteSpace (rev y) @ z" by (simp add: z_def)
  then have "y = rev z @ rev (takeWhile isWhiteSpace (rev y))"
    by (metis rev_append rev_rev_ident)
  moreover have "s = takeWhile isWhiteSpace s @ y" by (simp add: y_def)
  ultimately have "s = takeWhile isWhiteSpace s @ trim s @ rev (takeWhile isWhiteSpace (rev y))"
    using t by simp
  moreover have "\<forall>c\<in>set (takeWhile isWhiteSpace s). isWhiteSpace c"
    by (auto dest: set_takeWhileD)
  moreover have "\<forall>c\<in>set (rev (takeWhile isWhiteSpace (rev y))). isWhiteSpace c"
    by (auto dest: set_takeWhileD)
  ultimately show ?thesis by blast
qed

lemma tokensFrom_nonspace:
  "\<forall>c\<in>set a. \<not> isWhiteSpace c \<Longrightarrow> tokensFrom cur (a @ s) = tokensFrom (cur @ a) s"
  by (induction a arbitrary: cur) simp_all

lemma tokensFrom_space:
  "\<forall>c\<in>set b. isWhiteSpace c \<Longrightarrow> tokensFrom [] (b @ s) = tokensFrom [] s"
  by (induction b) simp_all

lemma tokensFrom_only_space:
  "\<forall>c\<in>set b. isWhiteSpace c \<Longrightarrow> tokensFrom cur b = (if cur = [] then [] else [cur])"
  by (induction b arbitrary: cur) simp_all

lemma tokensFrom_trailing:
  "\<forall>c\<in>set b. isWhiteSpace c \<Longrightarrow> tokensFrom cur (t @ b) = tokensFrom cur t"
  by (induction t arbitrary: cur) (simp_all add: tokensFrom_only_space)

lemma tokensFrom_trim: "tokensFrom [] (trim s) = tokensFrom [] s"
proof -
  obtain a b where d: "s = a @ trim s @ b"
    and a: "\<forall>c\<in>set a. isWhiteSpace c" and b: "\<forall>c\<in>set b. isWhiteSpace c"
    using trim_decompose by blast
  have "tokensFrom [] (a @ trim s @ b) = tokensFrom [] (trim s @ b)"
    using a by (rule tokensFrom_space)
  also have "\<dots> = tokensFrom [] (trim s)" using b by (rule tokensFrom_trailing)
  finally show ?thesis using d by simp
qed

lemma tokensFrom_tokens:
  "\<forall>c\<in>set cur. \<not> isWhiteSpace c
   \<Longrightarrow> \<forall>t\<in>set (tokensFrom cur s). t \<noteq> [] \<and> (\<forall>c\<in>set t. \<not> isWhiteSpace c)"
proof (induction s arbitrary: cur)
  case Nil
  then show ?case by auto
next
  case (Cons a s)
  have e: "\<forall>t\<in>set (tokensFrom [] s). t \<noteq> [] \<and> (\<forall>c\<in>set t. \<not> isWhiteSpace c)"
    using Cons.IH [of "[]"] by simp
  show ?case
  proof (cases "isWhiteSpace a")
    case True
    then have "set (tokensFrom cur (a # s)) \<subseteq> insert cur (set (tokensFrom [] s))"
      and "cur = [] \<longrightarrow> set (tokensFrom cur (a # s)) = set (tokensFrom [] s)"
      by auto
    with e Cons.prems show ?thesis by blast
  next
    case False
    then have u: "tokensFrom cur (a # s) = tokensFrom (cur @ [a]) s" by simp
    have "\<forall>c\<in>set (cur @ [a]). \<not> isWhiteSpace c" using False Cons.prems by auto
    then show ?thesis unfolding u by (rule Cons.IH)
  qed
qed

lemma splitWhiteSpace_tokens:
  "s \<noteq> [] \<Longrightarrow> \<not> isWhiteSpace (hd s) \<Longrightarrow> \<not> isWhiteSpace (last s)
   \<Longrightarrow> splitWhiteSpace s = tokensFrom [] s"
proof (induction s rule: splitWhiteSpace.induct)
  case (1 s)
  define piece where "piece = takeWhile (\<lambda>c. \<not> isWhiteSpace c) s"
  define rest where "rest = dropWhile (\<lambda>c. \<not> isWhiteSpace c) s"
  have s: "s = piece @ rest" by (simp add: piece_def rest_def)
  have pn: "\<forall>c\<in>set piece. \<not> isWhiteSpace c"
    by (auto simp add: piece_def dest: set_takeWhileD)
  have pne: "piece \<noteq> []" using "1.prems" by (cases s) (simp_all add: piece_def)
  show ?case
  proof (cases "rest = []")
    case True
    have "splitWhiteSpace s = [piece]"
      using True splitWhiteSpace_last [of s] by (simp add: piece_def rest_def)
    moreover have "tokensFrom [] s = [piece]"
      using tokensFrom_nonspace [OF pn, of "[]" "[]"] True s pne by simp
    ultimately show ?thesis by simp
  next
    case False
    define s' where "s' = dropWhile isWhiteSpace rest"
    define w where "w = takeWhile isWhiteSpace rest"
    have r: "rest = w @ s'" by (simp add: w_def s'_def)
    have wsp: "\<forall>c\<in>set w. isWhiteSpace c" by (auto simp add: w_def dest: set_takeWhileD)
    have hw: "isWhiteSpace (hd rest)"
      using False hd_dropWhile [of "\<lambda>c. \<not> isWhiteSpace c" s] by (simp add: rest_def)
    then have wne: "w \<noteq> []" using False by (cases rest) (simp_all add: w_def)
    have s'ne: "s' \<noteq> []"
    proof
      assume "s' = []"
      then have "last s = last w" using s r wne by simp
      then have "isWhiteSpace (last s)" using wsp wne last_in_set by metis
      with "1.prems" show False by simp
    qed
    have h': "\<not> isWhiteSpace (hd s')" using s'ne unfolding s'_def by (rule hd_dropWhile)
    have l': "\<not> isWhiteSpace (last s')" using "1.prems" s r s'ne by simp
    have ih: "splitWhiteSpace s' = tokensFrom [] s'"
      using "1.IH" [OF piece_def rest_def False] s'ne h' l' by (simp add: s'_def)
    have "splitWhiteSpace s = piece # splitWhiteSpace s'"
      using False splitWhiteSpace_more [of s] unfolding piece_def rest_def s'_def by blast
    moreover have "tokensFrom [] s = piece # tokensFrom [] s'"
    proof -
      obtain c cs where w: "w = c # cs" using wne by (cases w) auto
      have "tokensFrom [] s = tokensFrom piece (c # cs @ s')"
        using tokensFrom_nonspace [OF pn, of "[]" rest] s r w by simp
      also have "\<dots> = piece # tokensFrom [] (cs @ s')" using wsp w pne by simp
      also have "tokensFrom [] (cs @ s') = tokensFrom [] s'"
        using wsp w by (intro tokensFrom_space) simp
      finally show ?thesis .
    qed
    ultimately show ?thesis using ih by simp
  qed
qed

lemma convert_tokens:
  "convertStringToProjectId rawName = join ''-'' (map toLowerCase (tokensFrom [] rawName))"
proof (cases "trim rawName = []")
  case True
  have "tokensFrom [] rawName = []" using tokensFrom_trim [of rawName] True by simp
  moreover have "splitWhiteSpace (trim rawName) = [ [] ]"
    using True splitWhiteSpace_last [of "[]"] by simp
  ultimately show ?thesis by (simp add: convertStringToProjectId_def toLowerCase_def)
next
  case False
  then have "splitWhiteSpace (trim rawName) = tokensFrom [] (trim rawName)"
    using trim_ends [of rawName] splitWhiteSpace_tokens [of "trim rawName"] by simp
  then show ?thesis by (simp add: convertStringToProjectId_def tokensFrom_trim)
qed

lemma join_chars:
  "c \<in> set (join sep xs) \<Longrightarrow> c \<in> set sep \<or> (\<exists>x\<in>set xs. c \<in> set x)"
  by (induction sep xs rule: join.induct) auto

lemma convert_chars:
  assumes "c \<in> set (convertStringToProjectId s)"
  shows "\<not> isWhiteSpace c \<and> toLowerChar c = c"
proof -
  from assms
  have "c \<in> set ''-'' \<or> (\<exists>x\<in>set (map toLowerCase (splitWhiteSpace (trim s))). c \<in> set x)"
    using join_chars [of c "''-''" "map toLowerCase (splitWhiteSpace (trim s))"]
    by (simp add: convertStringToProjectId_def)
  then show ?thesis
  proof
    assume "c \<in> set ''-''"
    then show ?thesis using hyphen_lower by simp
  next
    assume "\<exists>x\<in>set (map toLowerCase (splitWhiteSpace (trim s))). c \<in> set x"
    then obtain p d
      where "p \<in> set (splitWhiteSpace (trim s))" "d \<in> set p" "c = toLowerChar d"
      by (auto simp add: toLowerCase_def)
    moreover have "\<not> isWhiteSpace d" using calculation splitWhiteSpace_pieces by blast
    ultimately show ?thesis using toLowerChar_idem toLowerChar_not_space by simp
  qed
qed

text \<open>
  Claim C2. For every raw project name whose trimmed form is not empty,
  \<^verbatim>\<open>convertStringToProjectId\<close> returns what the specification describes: the input
  trimmed, split on runs of white space, each token in lower case, the tokens joined with
  a hyphen. The witness is the raw name of the specification's scenario, two spaces around
  \<^verbatim>\<open>My Cool App\<close>, which yields \<^verbatim>\<open>my-cool-app\<close>.
\<close>

theorem convertStringToProjectId_refines:
  "trim rawName \<noteq> [] \<Longrightarrow> convertStringToProjectId rawName = deriveProjectId rawName"
  using trim_ends [of rawName] splitWhiteSpace_tokens [of "trim rawName"]
  by (simp add: convertStringToProjectId_def deriveProjectId_def)

theorem convertStringToProjectId_refines_witness:
  "trim ''  My Cool App  '' \<noteq> []
   \<and> convertStringToProjectId ''  My Cool App  '' = deriveProjectId ''  My Cool App  ''
   \<and> deriveProjectId ''  My Cool App  '' = ''my-cool-app''"
proof -
  have h: "trim ''  My Cool App  '' \<noteq> []" by code_simp
  have v: "deriveProjectId ''  My Cool App  '' = ''my-cool-app''" by code_simp
  from h v convertStringToProjectId_refines [OF h] show ?thesis by simp
qed

text \<open>
  Claim C3. For every non-empty raw name, \<^verbatim>\<open>convertStringToProjectId\<close> is deterministic
  (the same raw name gives the same id: the function reads nothing but its argument) and
  its output is the lower-case tokens of the name joined by single hyphens: every token is
  non-empty, free of white space and unchanged by lower-casing, and the output holds no
  white space at all, neither at its ends nor inside.
\<close>

theorem convertStringToProjectId_lowercase_hyphenated:
  assumes "rawName \<noteq> []"
  shows "(\<forall>other. other = rawName
            \<longrightarrow> convertStringToProjectId other = convertStringToProjectId rawName)
   \<and> convertStringToProjectId rawName
       = join ''-'' (map toLowerCase (tokensFrom [] rawName))
   \<and> (\<forall>t\<in>set (map toLowerCase (tokensFrom [] rawName)).
         t \<noteq> [] \<and> (\<forall>c\<in>set t. \<not> isWhiteSpace c \<and> toLowerChar c = c))
   \<and> (\<forall>c\<in>set (convertStringToProjectId rawName). \<not> isWhiteSpace c)"
proof -
  have tok: "\<forall>t\<in>set (tokensFrom [] rawName). t \<noteq> [] \<and> (\<forall>c\<in>set t. \<not> isWhiteSpace c)"
    using tokensFrom_tokens [of "[]" rawName] by simp
  have "\<forall>t\<in>set (map toLowerCase (tokensFrom [] rawName)).
          t \<noteq> [] \<and> (\<forall>c\<in>set t. \<not> isWhiteSpace c \<and> toLowerChar c = c)"
    using tok toLowerChar_idem toLowerChar_not_space by (auto simp add: toLowerCase_def)
  then show ?thesis using convert_tokens convert_chars by blast
qed

theorem convertStringToProjectId_lowercase_hyphenated_witness:
  "''  My Cool App  '' \<noteq> []
   \<and> convertStringToProjectId ''  My Cool App  '' = join ''-'' [''my'', ''cool'', ''app'']
   \<and> \<not> list_ex isWhiteSpace (convertStringToProjectId ''  My Cool App  '')"
proof -
  have h: "''  My Cool App  '' \<noteq> []" by simp
  have t: "map toLowerCase (tokensFrom [] ''  My Cool App  '') = [''my'', ''cool'', ''app'']"
    by code_simp
  note r = convertStringToProjectId_lowercase_hyphenated [OF h]
  have a: "convertStringToProjectId ''  My Cool App  ''
             = join ''-'' (map toLowerCase (tokensFrom [] ''  My Cool App  ''))"
    using r by (rule conjunct1 [OF conjunct2])
  have b: "\<forall>c\<in>set (convertStringToProjectId ''  My Cool App  ''). \<not> isWhiteSpace c"
    using r by (rule conjunct2 [OF conjunct2 [OF conjunct2]])
  have c: "\<not> list_ex isWhiteSpace (convertStringToProjectId ''  My Cool App  '')"
    using b unfolding list_ex_iff by blast
  show ?thesis by (intro conjI) (rule h, rule a [unfolded t], rule c)
qed

text \<open>
  Claim C9. \<^verbatim>\<open>convertStringToProjectId\<close> is idempotent: its output holds no white space
  and no upper-case letter, so deriving an id from an id gives it back.
\<close>

theorem convertStringToProjectId_idempotent:
  "convertStringToProjectId (convertStringToProjectId x) = convertStringToProjectId x"
proof -
  define y where "y = convertStringToProjectId x"
  have ns: "\<forall>c\<in>set y. \<not> isWhiteSpace c" and lc: "\<forall>c\<in>set y. toLowerChar c = c"
    using convert_chars by (auto simp add: y_def)
  have "map toLowerChar y = y" using lc by (simp add: map_idI)
  then have "convertStringToProjectId y = y"
    using trim_nonspace [OF ns] splitWhiteSpace_nonspace [OF ns]
    by (simp add: convertStringToProjectId_def toLowerCase_def)
  then show ?thesis by (simp add: y_def)
qed

section \<open>Keyword substitution\<close>

lemma getSubstitution_plain:
  "CHR ''$'' \<notin> set t \<Longrightarrow> getSubstitution matched str position t = t"
  by (induction matched str position t rule: getSubstitution.induct) auto

lemma replaceAllFrom_match:
  assumes "key \<noteq> []" and "take (length key) rest = key"
  shows "replaceAllFrom key val str position rest =
           getSubstitution key str position val
           @ replaceAllFrom key val str (position + length key) (drop (length key) rest)"
  by (subst replaceAllFrom.simps) (simp add: assms)

lemma replaceAllFrom_skip:
  assumes "key \<noteq> []" and "take (length key) (c # cs) \<noteq> key"
  shows "replaceAllFrom key val str position (c # cs) =
           c # replaceAllFrom key val str (Suc position) cs"
  by (subst replaceAllFrom.simps) (simp add: assms)

lemma replaceAllFrom_end:
  assumes "key \<noteq> []"
  shows "replaceAllFrom key val str position [] = []"
  using assms by (subst replaceAllFrom.simps) auto

lemma replaceAllFrom_plain:
  "CHR ''$'' \<notin> set val \<Longrightarrow> key \<noteq> []
   \<Longrightarrow> replaceAllFrom key val str position rest = replaceEvery key val rest"
proof (induction key val str position rest rule: replaceAllFrom.induct)
  case (1 key val str position rest)
  show ?case
  proof (cases rest)
    case Nil
    with "1.prems" show ?thesis by (simp add: replaceAllFrom_end)
  next
    case (Cons c cs)
    show ?thesis
    proof (cases "take (length key) rest = key")
      case True
      have "replaceAllFrom key val str (position + length key) (drop (length key) rest)
            = replaceEvery key val (drop (length key) rest)"
        using "1.IH"(2) "1.prems" True by simp
      with True "1.prems" Cons show ?thesis
        by (simp add: replaceAllFrom_match getSubstitution_plain)
    next
      case False
      have "replaceAllFrom key val str (Suc position) cs = replaceEvery key val cs"
        using "1.IH"(3) [OF _ _ Cons] "1.prems" False by simp
      with False "1.prems" Cons show ?thesis
        by (simp add: replaceAllFrom_skip)
    qed
  qed
qed

text \<open>
  Where the value holds no dollar sign, \<^verbatim>\<open>replaceAll\<close> puts the value itself in the place
  of every occurrence of the keyword.
\<close>

lemma replaceAll_plain:
  "CHR ''$'' \<notin> set val \<Longrightarrow> key \<noteq> [] \<Longrightarrow> replaceAll str key val = replaceEvery key val str"
  by (simp add: replaceAll_def replaceAllFrom_plain)

text \<open>
  A keyword outside the table leaves the text as it is.
\<close>

lemma filterKeyword_unknown:
  "key \<notin> {''webstart-project-id'', ''webstart-project-name'', ''webstart-project-author'',
            ''webstart-project-setupdate'', ''webstart-template-url'', ''@webstart''}
   \<Longrightarrow> filterKeyword w projectSetup fileData key = fileData"
  by (simp add: filterKeyword_def)

text \<open>
  The scenario of the specification: a file that names the project id and the setup date,
  for the project id \<^verbatim>\<open>foo\<close> on 5 January 2024.
\<close>

lemma filterFileData_scenario:
  "filterFileData exampleWorld (exampleSetup\<lparr>id' := ''foo''\<rparr>)
     (''# webstart-project-id'' @ [CHR 0x0A] @ ''Created webstart-project-setupdate'')
     [''webstart-project-id'', ''webstart-project-setupdate'']
   = ''# foo'' @ [CHR 0x0A] @ ''Created 1/5/2024 (en-US)''"
  by code_simp

text \<open>
  Claim C1. The Substitute phase replaces every occurrence of each listed keyword by its
  value from the keyword table, the project name for \<^verbatim>\<open>webstart-project-name\<close>. The script
  passes the value to \<^verbatim>\<open>replaceAll\<close> as the replacement text, in which a dollar sign
  followed by a dollar sign, an ampersand, a backquote or a quote is a pattern. For the
  project name \<^verbatim>\<open>Big $& Deal\<close> the file content \<^verbatim>\<open># webstart-project-name\<close> becomes
  \<^verbatim>\<open># Big webstart-project-name Deal\<close>: the text written is not the project name. The third
  part is the call of \<^verbatim>\<open>filterFile\<close> on such a file, the last part the whole run in which
  this name is typed at the second question and the manifest lists \<^verbatim>\<open>README.md\<close> with this
  keyword (the shell that runs the clone leaves \<^verbatim>\<open>$&\<close> as it is).
\<close>

theorem filterFileData_dollar_pattern:
  "name' exampleSetup = ''Big $& Deal''
   \<and> filterFileData exampleWorld exampleSetup ''# webstart-project-name''
         [''webstart-project-name'']
       = ''# Big webstart-project-name Deal''
   \<and> filterFileData exampleWorld exampleSetup ''# webstart-project-name''
         [''webstart-project-name'']
       \<noteq> ''# '' @ name' exampleSetup
   \<and> filterFile (exampleWorld\<lparr>readFile := (\<lambda>_. Inr ''# webstart-project-name'')\<rparr>)
         \<lparr>file' = ''README.md'', keywords' = [''webstart-project-name'']\<rparr>
         ''/home/jo/big-$&-deal'' exampleSetup
       = ([ReadFile ''/home/jo/big-$&-deal/README.md'',
           WriteFile ''/home/jo/big-$&-deal/README.md'' ''# Big webstart-project-name Deal''],
          Fulfilled)
   \<and> WriteFile ''/home/jo/big-$&-deal/README.md'' ''# Big webstart-project-name Deal''
       \<in> set (fst (script (exampleWorld
                 \<lparr>answerName := ''Big $& Deal'',
                  templateJson := Inr [\<lparr>file' = ''README.md'',
                                        keywords' = [''webstart-project-name'']\<rparr>],
                  readFile := (\<lambda>_. Inr ''# webstart-project-name'')\<rparr>)))"
  by code_simp

section \<open>Runs of the script\<close>

lemmas run_defs = andThen_def tryCatch_def emit_def return_def processExit_def

subsection \<open>The creation of the project\<close>

lemma createProject_exists:
  "existsSync w (id' s) \<Longrightarrow>
   createProject w s =
     ([ExistsSync (id' s),
       LogError (''Target directory '' @ [CHR 0x27] @ id' s @ [CHR 0x27] @ '' already exists''
                 @ [CHR 0x27])],
      Exits 9)"
  by (simp add: createProject_def checkAvailabilityOfDirectory_def run_defs Let_def)

lemma createProject_clone_fails:
  "\<not> existsSync w (id' s) \<Longrightarrow> gitClone w = Some msg \<Longrightarrow>
   createProject w s =
     ([ExistsSync (id' s), Log ''Downloading template...'']
      @ fst (downloadProjectTemplateData w (getProjectTargetDirectory w s) (gitUrl (template s)))
      @ [LogError msg],
      Exits 9)"
  by (simp add: createProject_def checkAvailabilityOfDirectory_def run_defs
      downloadProjectTemplateData_def Let_def)

lemma createProject_manifest_fails:
  "\<not> existsSync w (id' s) \<Longrightarrow> gitClone w = None \<Longrightarrow> templateJson w = Inl msg \<Longrightarrow>
   createProject w s =
     ([ExistsSync (id' s), Log ''Downloading template...'']
      @ fst (downloadProjectTemplateData w (getProjectTargetDirectory w s) (gitUrl (template s)))
      @ [Log ''Filtering...'',
         ReadFileSync (pathResolve w (getProjectTargetDirectory w s) ''__template.json''),
         LogError msg],
      Exits 9)"
  by (simp add: createProject_def checkAvailabilityOfDirectory_def run_defs
      downloadProjectTemplateData_def filterFiles_def Let_def)

lemma createProject_completes:
  "\<not> existsSync w (id' s) \<Longrightarrow> gitClone w = None \<Longrightarrow> templateJson w = Inr project \<Longrightarrow>
   createProject w s =
     ([ExistsSync (id' s), Log ''Downloading template...'']
      @ fst (downloadProjectTemplateData w (getProjectTargetDirectory w s) (gitUrl (template s)))
      @ [Log ''Filtering...'']
      @ fst (filterFiles w (getProjectTargetDirectory w s) s)
      @ [Log ''Cleanup...'']
      @ fst (removeTemplateFiles w (getProjectTargetDirectory w s))
      @ [Log successMessage],
      Returns ())"
  by (simp add: createProject_def checkAvailabilityOfDirectory_def run_defs
      downloadProjectTemplateData_def filterFiles_def removeTemplateFiles_def Let_def)



subsection \<open>The phases of the creation\<close>

lemma phases_append: "phases (a @ b) = phases a @ phases b"
  by (induction a) (simp_all split: option.splits)

lemma phases_concat: "phases (concat xss) = concat (map phases xss)"
  by (induction xss) (simp_all add: phases_append)

lemma phases_download:
  "phases (fst (downloadProjectTemplateData w dir url)) = [1]"
  by (simp add: downloadProjectTemplateData_def phase_def)

lemma phases_filterFile:
  "phases (fst (filterFile w fileEntry dir s)) = [3]
   \<or> phases (fst (filterFile w fileEntry dir s)) = [3, 3]"
  by (simp add: filterFile_def phase_def Let_def split: sum.splits)

lemma phases_filterFiles:
  "templateJson w = Inr project \<Longrightarrow>
   phases (fst (filterFiles w dir s))
     = 2 # concat (map (\<lambda>fileEntry. phases (fst (filterFile w fileEntry dir s))) project)"
  by (simp add: filterFiles_def Let_def phase_def phases_concat comp_def)

lemma phases_removeTemplateFiles:
  "phases (fst (removeTemplateFiles w dir)) = [4, 4, 4]"
  by (simp add: removeTemplateFiles_def phase_def)

lemma sorted_constant: "set sub \<subseteq> {p} \<Longrightarrow> sorted (sub :: nat list)"
  by (induction sub) auto

lemma sorted_substitution:
  assumes "set sub \<subseteq> {3}"
  shows "sorted ([0, 1, 2] @ sub @ [4, 4, 4 :: nat])"
  using assms sorted_constant [OF assms] by (auto simp add: sorted_append)

subsection \<open>The run up to the creation\<close>

lemma getCurrentUserInfo_cases:
  "getCurrentUserInfo w =
     (case gitUserName w of
        Inl err \<Rightarrow> ([Exec ''git config user.name'', LogError err], Returns (''Unknown'', []))
      | Inr nameOut \<Rightarrow>
          (case gitUserEmail w of
             Inl err \<Rightarrow> ([Exec ''git config user.name'', Exec ''git config user.email'',
                          LogError err], Returns (''Unknown'', []))
           | Inr emailOut \<Rightarrow> ([Exec ''git config user.name'', Exec ''git config user.email''],
                               Returns (replace nameOut [CHR 0x0A] [],
                                        replace emailOut [CHR 0x0A] []))))"
  by (simp add: getCurrentUserInfo_def executeShell_def run_defs split: sum.splits)

lemma getCurrentUserInfo_returns:
  "\<exists>tr gitName gitEmail. getCurrentUserInfo w = (tr, Returns (gitName, gitEmail))"
  by (simp add: getCurrentUserInfo_cases split: sum.splits)




lemma wizardAnswersD:
  assumes "wizardAnswers w ts k n"
  shows "fetchTemplates w = Inr ts" and "ts \<noteq> []"
    and "templateIndex ts (answerTemplate w) = Some k"
    and "answerName w = n" and "trim n \<noteq> []"
  using assms by (simp_all add: wizardAnswers_def)

lemma main_wizard:
  assumes "fetchTemplates w = Inr ts" and "ts \<noteq> []"
    and "templateIndex ts (answerTemplate w) = Some k"
    and "answerName w = n" and "trim n \<noteq> []"
    and "getCurrentUserInfo w = (tru, Returns (gitName, gitEmail))"
    and "s = \<lparr>template = ts ! k, id' = convertStringToProjectId (trim n), name' = trim n,
              userName = gitName, userEmail = gitEmail\<rparr>"
  shows "main w =
     (wizardEvents w ts s @ fst (createProject w s),
      case snd (createProject w s) of
        Returns _ \<Rightarrow> Exits 0 | Throws msg \<Rightarrow> Throws msg | Exits code \<Rightarrow> Exits code)"
proof -
  obtain trc r where cp: "createProject w s = (trc, r)" by (cases "createProject w s")
  show ?thesis
    using assms(1-6) cp [unfolded assms(7)]
    unfolding assms(7) main_def userInterfaceLoadTemplates_def fetchAvailableTemplates_def
      userInterface_def printAvailableTemplates_def question_def rlClose_def wizardEvents_def
      run_defs
    by (cases r) (simp_all add: Let_def)
qed

lemma script_wizard:
  assumes "wizardAnswers w ts k n"
    and "snd (getCurrentUserInfo w) = Returns (gitName, gitEmail)"
    and "s = \<lparr>template = ts ! k, id' = convertStringToProjectId (trim n), name' = trim n,
              userName = gitName, userEmail = gitEmail\<rparr>"
  shows "script w = (wizardEvents w ts s @ fst (createProject w s),
                     endingOf (snd (createProject w s)))"
proof -
  note h = wizardAnswersD [OF assms(1)]
  obtain tru where u: "getCurrentUserInfo w = (tru, Returns (gitName, gitEmail))"
    using assms(2) by (cases "getCurrentUserInfo w") simp
  show ?thesis
    unfolding script_def main_wizard [OF h u assms(3)]
    by (simp add: endingOf_def split: completion.splits)
qed

lemma script_empty_catalog:
  assumes "fetchTemplates w = Inr []"
  shows "script w =
     ([Log ''Fetching available project templates...''] @ fst (fetchAvailableTemplates w)
      @ [Log ''No project templates available'', Log ''Available project templates: ''],
      UnhandledRejection undefinedLength)"
  using assms
  by (simp add: script_def main_def userInterfaceLoadTemplates_def fetchAvailableTemplates_def
      userInterface_def printAvailableTemplates_def run_defs)






lemma script_created:
  assumes "wizardAnswers w ts k n"
  shows "\<exists>s. id' s = convertStringToProjectId (trim n)
           \<and> script w = (wizardEvents w ts s @ fst (createProject w s),
                           endingOf (snd (createProject w s)))"
proof -
  obtain tru gitName gitEmail
    where u: "getCurrentUserInfo w = (tru, Returns (gitName, gitEmail))"
    using getCurrentUserInfo_returns by blast
  define s where "s = \<lparr>template = ts ! k, id' = convertStringToProjectId (trim n),
                        name' = trim n, userName = gitName, userEmail = gitEmail\<rparr>"
  have "script w = (wizardEvents w ts s @ fst (createProject w s),
                    endingOf (snd (createProject w s)))"
    using script_wizard [OF assms _ s_def] u by simp
  moreover have "id' s = convertStringToProjectId (trim n)" by (simp add: s_def)
  ultimately show ?thesis by blast
qed



text \<open>
  Claim C4. When the catalog is empty, the program should print a message and exit with
  status 0 without asking anything. The script prints the message and then returns
  \<^verbatim>\<open>undefined\<close> from \<^verbatim>\<open>userInterfaceLoadTemplates\<close> only; \<^verbatim>\<open>main\<close> goes on to call
  \<^verbatim>\<open>userInterface(undefined)\<close>, which prints a heading and throws a TypeError on
  \<^verbatim>\<open>templates.length\<close>. No question is asked, but the rejection of \<^verbatim>\<open>main\<close> is handled
  nowhere and the process does not end with status 0.
\<close>

theorem empty_catalog_unhandled_rejection:
  "script (w\<lparr>fetchTemplates := Inr []\<rparr>) =
     ([Log ''Fetching available project templates...'',
       Fetch (''https://api.github.com/search/repositories?q=''
              @ ''user%3Ajburmeis%20project-template%20in%3Atopics''),
       Log ''No project templates available'',
       Log ''Available project templates: ''],
      UnhandledRejection undefinedLength)
   \<and> exitStatus (snd (script (w\<lparr>fetchTemplates := Inr []\<rparr>))) = 1"
  using script_empty_catalog [of "w\<lparr>fetchTemplates := Inr []\<rparr>"]
  by (simp add: fetchAvailableTemplates_def exitStatus_def)



lemma example_index: "templateIndex [exampleTemplate] ''0'' = Some 0"
  by code_simp

lemma example_name: "trim ''  My Cool App  '' = ''My Cool App''"
  by code_simp

lemma example_id: "convertStringToProjectId ''My Cool App'' = ''my-cool-app''"
  by code_simp

lemma example_answers: "wizardAnswers exampleWorld [exampleTemplate] 0 ''  My Cool App  ''"
  by (simp add: wizardAnswers_def exampleWorld_def example_index example_name)



text \<open>
  Claim C6. The creation is all-or-nothing at the level of its phases, which run in the
  order check of the directory (0), clone (1), reading of the manifest (2), substitution
  (3), removal of the template's files (4): when the directory exists nothing else runs,
  when the clone fails neither the manifest is read nor any file substituted, and when
  the manifest cannot be read no file is substituted.
\<close>

theorem createProject_phase_order:
  "sorted (phases (fst (createProject w s)))
   \<and> (existsSync w (id' s) \<longrightarrow> phases (fst (createProject w s)) = [0])
   \<and> (\<not> existsSync w (id' s) \<and> gitClone w \<noteq> None
        \<longrightarrow> phases (fst (createProject w s)) = [0, 1])
   \<and> (\<not> existsSync w (id' s) \<and> gitClone w = None \<and> isl (templateJson w)
        \<longrightarrow> phases (fst (createProject w s)) = [0, 1, 2])
   \<and> (\<forall>project. \<not> existsSync w (id' s) \<and> gitClone w = None \<and> templateJson w = Inr project
        \<longrightarrow> phases (fst (createProject w s))
            = [0, 1, 2]
              @ concat (map (\<lambda>fileEntry. phases (fst (filterFile w fileEntry
                                                     (getProjectTargetDirectory w s) s)))
                          project)
              @ [4, 4, 4])
   \<and> (\<forall>fileEntry dir. set (phases (fst (filterFile w fileEntry dir s))) = {3})"
proof -
  have ff: "\<forall>fileEntry dir. set (phases (fst (filterFile w fileEntry dir s))) = {3}"
    using phases_filterFile [of w _ _ s] by (metis empty_set insert_absorb2 list.simps(15))
  have p0: "existsSync w (id' s) \<Longrightarrow> phases (fst (createProject w s)) = [0]"
    by (simp add: createProject_exists phase_def)
  have p1: "\<not> existsSync w (id' s) \<Longrightarrow> gitClone w \<noteq> None
            \<Longrightarrow> phases (fst (createProject w s)) = [0, 1]"
    by (auto simp add: createProject_clone_fails phases_append phases_download phase_def)
  have p2: "\<not> existsSync w (id' s) \<Longrightarrow> gitClone w = None \<Longrightarrow> isl (templateJson w)
            \<Longrightarrow> phases (fst (createProject w s)) = [0, 1, 2]"
    by (cases "templateJson w")
      (auto simp add: createProject_manifest_fails phases_append phases_download phase_def)
  have p3: "\<not> existsSync w (id' s) \<Longrightarrow> gitClone w = None \<Longrightarrow> templateJson w = Inr project
            \<Longrightarrow> phases (fst (createProject w s))
              = [0, 1, 2]
                @ concat (map (\<lambda>fileEntry. phases (fst (filterFile w fileEntry
                                                       (getProjectTargetDirectory w s) s)))
                            project)
                @ [4, 4, 4]" for project
    by (simp add: createProject_completes phases_append phases_download phases_filterFiles
        phases_removeTemplateFiles phase_def)
  have "sorted (phases (fst (createProject w s)))"
  proof (cases "existsSync w (id' s)")
    case True
    then show ?thesis by (simp add: p0)
  next
    case False
    show ?thesis
    proof (cases "gitClone w")
      case (Some msg)
      with False show ?thesis by (simp add: p1)
    next
      case None
      show ?thesis
      proof (cases "templateJson w")
        case (Inl msg)
        with False None show ?thesis by (simp add: p2)
      next
        case (Inr project)
        have "set (concat (map (\<lambda>fileEntry. phases (fst (filterFile w fileEntry
                                  (getProjectTargetDirectory w s) s))) project)) \<subseteq> {3}"
          using ff by auto
        then show ?thesis
          unfolding p3 [OF False None Inr] by (rule sorted_substitution)
      qed
    qed
  qed
  with ff p0 p1 p2 p3 show ?thesis by blast
qed

theorem createProject_phase_order_witness:
  "phases (fst (createProject exampleWorld exampleCreated)) = [0, 1, 2, 3, 3, 3, 4, 4, 4]
   \<and> phases (fst (createProject (exampleWorld\<lparr>templateJson := Inl ''ENOENT''\<rparr>)
                   exampleCreated)) = [0, 1, 2]
   \<and> phases (fst (createProject (exampleWorld\<lparr>gitClone := Some ''fatal''\<rparr>)
                   exampleCreated)) = [0, 1]
   \<and> phases (fst (createProject (exampleWorld\<lparr>existsSync := (\<lambda>_. True)\<rparr>)
                   exampleCreated)) = [0]"
proof -
  have sub: "concat (map (\<lambda>fileEntry. phases (fst (filterFile exampleWorld fileEntry
                (getProjectTargetDirectory exampleWorld exampleCreated) exampleCreated)))
               [\<lparr>file' = ''missing.txt'', keywords' = [''webstart-project-name'']\<rparr>,
                \<lparr>file' = ''README.md'',
                 keywords' = [''webstart-project-id'', ''webstart-project-setupdate'']\<rparr>])
             = [3, 3, 3]"
    by code_simp
  have h: "\<not> existsSync exampleWorld (id' exampleCreated) \<and> gitClone exampleWorld = None
           \<and> templateJson exampleWorld
               = Inr [\<lparr>file' = ''missing.txt'', keywords' = [''webstart-project-name'']\<rparr>,
                      \<lparr>file' = ''README.md'',
                       keywords' = [''webstart-project-id'', ''webstart-project-setupdate'']\<rparr>]"
    by (simp add: exampleWorld_def)
  have a: "phases (fst (createProject exampleWorld exampleCreated))
           = [0, 1, 2, 3, 3, 3, 4, 4, 4]"
    using createProject_phase_order [of exampleWorld exampleCreated] h sub by simp
  have "\<not> existsSync (exampleWorld\<lparr>templateJson := Inl ''ENOENT''\<rparr>) (id' exampleCreated)
        \<and> gitClone (exampleWorld\<lparr>templateJson := Inl ''ENOENT''\<rparr>) = None
        \<and> isl (templateJson (exampleWorld\<lparr>templateJson := Inl ''ENOENT''\<rparr>))"
    by (simp add: exampleWorld_def)
  then have b: "phases (fst (createProject (exampleWorld\<lparr>templateJson := Inl ''ENOENT''\<rparr>)
                  exampleCreated)) = [0, 1, 2]"
    using createProject_phase_order
      [of "exampleWorld\<lparr>templateJson := Inl ''ENOENT''\<rparr>" exampleCreated]
    by blast
  have "\<not> existsSync (exampleWorld\<lparr>gitClone := Some ''fatal''\<rparr>) (id' exampleCreated)
        \<and> gitClone (exampleWorld\<lparr>gitClone := Some ''fatal''\<rparr>) \<noteq> None"
    by (simp add: exampleWorld_def)
  then have c: "phases (fst (createProject (exampleWorld\<lparr>gitClone := Some ''fatal''\<rparr>)
                  exampleCreated)) = [0, 1]"
    using createProject_phase_order
      [of "exampleWorld\<lparr>gitClone := Some ''fatal''\<rparr>" exampleCreated]
    by blast
  have "existsSync (exampleWorld\<lparr>existsSync := (\<lambda>_. True)\<rparr>) (id' exampleCreated)"
    by simp
  then have d: "phases (fst (createProject (exampleWorld\<lparr>existsSync := (\<lambda>_. True)\<rparr>)
                  exampleCreated)) = [0]"
    using createProject_phase_order
      [of "exampleWorld\<lparr>existsSync := (\<lambda>_. True)\<rparr>" exampleCreated]
    by blast
  show ?thesis using a b c d by blast
qed

text \<open>
  Claim C7. \<^verbatim>\<open>getCurrentUserInfo\<close> never lets an error escape: it always returns, and when
  the lookup of the name or of the email fails it returns exactly the name \<^verbatim>\<open>Unknown\<close> and
  the empty email. The wizard goes on with these values: the summary is asked for and the
  project is created with them.
\<close>

theorem getCurrentUserInfo_fallback:
  "(\<exists>tr gitName gitEmail. getCurrentUserInfo w = (tr, Returns (gitName, gitEmail)))
   \<and> (isl (gitUserName w) \<or> isl (gitUserEmail w)
        \<longrightarrow> snd (getCurrentUserInfo w) = Returns (''Unknown'', []))
   \<and> (\<forall>ts k n. (isl (gitUserName w) \<or> isl (gitUserEmail w)) \<and> wizardAnswers w ts k n
        \<longrightarrow> (let s = \<lparr>template = ts ! k, id' = convertStringToProjectId (trim n),
                        name' = trim n, userName = ''Unknown'', userEmail = []\<rparr>
             in Question (getSummaryString w s) \<in> set (fst (script w))
                \<and> script w = (wizardEvents w ts s @ fst (createProject w s),
                                endingOf (snd (createProject w s)))))"
proof -
  have fb: "isl (gitUserName w) \<or> isl (gitUserEmail w)
            \<Longrightarrow> snd (getCurrentUserInfo w) = Returns (''Unknown'', [])"
    by (auto simp add: getCurrentUserInfo_cases isl_def split: sum.splits)
  have "Question (getSummaryString w s) \<in> set (fst (script w))
        \<and> script w = (wizardEvents w ts s @ fst (createProject w s),
                        endingOf (snd (createProject w s)))"
    if f: "isl (gitUserName w) \<or> isl (gitUserEmail w)" and wa: "wizardAnswers w ts k n"
      and s: "s = \<lparr>template = ts ! k, id' = convertStringToProjectId (trim n),
                    name' = trim n, userName = ''Unknown'', userEmail = []\<rparr>"
    for ts k n s
  proof -
    have sc: "script w = (wizardEvents w ts s @ fst (createProject w s),
                          endingOf (snd (createProject w s)))"
      using script_wizard [OF wa fb [OF f] s] .
    have "Question (getSummaryString w s) \<in> set (wizardEvents w ts s)"
      by (simp add: wizardEvents_def)
    then show ?thesis unfolding sc by simp
  qed
  then show ?thesis using getCurrentUserInfo_returns [of w] fb by (simp add: Let_def)
qed

theorem getCurrentUserInfo_fallback_witness:
  "isl (gitUserEmail (exampleWorld\<lparr>gitUserEmail := Inl ''exit code 1''\<rparr>))
   \<and> snd (getCurrentUserInfo (exampleWorld\<lparr>gitUserEmail := Inl ''exit code 1''\<rparr>))
       = Returns (''Unknown'', [])
   \<and> Question (getSummaryString (exampleWorld\<lparr>gitUserEmail := Inl ''exit code 1''\<rparr>)
                 (exampleCreated\<lparr>userName := ''Unknown'', userEmail := []\<rparr>))
       \<in> set (fst (script (exampleWorld\<lparr>gitUserEmail := Inl ''exit code 1''\<rparr>)))
   \<and> snd (script (exampleWorld\<lparr>gitUserEmail := Inl ''exit code 1''\<rparr>)) = ExitCode 0"
proof -
  define w1 where "w1 = exampleWorld\<lparr>gitUserEmail := Inl ''exit code 1''\<rparr>"
  have i: "isl (gitUserEmail w1)" by (simp add: w1_def)
  have wa: "wizardAnswers w1 [exampleTemplate] 0 ''  My Cool App  ''"
    using example_answers by (simp add: wizardAnswers_def w1_def)
  have s: "\<lparr>template = [exampleTemplate] ! 0,
            id' = convertStringToProjectId (trim ''  My Cool App  ''),
            name' = trim ''  My Cool App  '', userName = ''Unknown'', userEmail = []\<rparr>
           = exampleCreated\<lparr>userName := ''Unknown'', userEmail := []\<rparr>"
    by (simp add: exampleCreated_def example_name example_id)
  note t = getCurrentUserInfo_fallback [of w1]
  have a: "snd (getCurrentUserInfo w1) = Returns (''Unknown'', [])"
    using t i by blast
  from t have "\<forall>ts k n. (isl (gitUserName w1) \<or> isl (gitUserEmail w1))
                 \<and> wizardAnswers w1 ts k n
        \<longrightarrow> (let s = \<lparr>template = ts ! k, id' = convertStringToProjectId (trim n),
                        name' = trim n, userName = ''Unknown'', userEmail = []\<rparr>
             in Question (getSummaryString w1 s) \<in> set (fst (script w1))
                \<and> script w1 = (wizardEvents w1 ts s @ fst (createProject w1 s),
                                 endingOf (snd (createProject w1 s))))"
    by (elim conjE)
  then have "let s = \<lparr>template = [exampleTemplate] ! 0,
                       id' = convertStringToProjectId (trim ''  My Cool App  ''),
                       name' = trim ''  My Cool App  '', userName = ''Unknown'',
                       userEmail = []\<rparr>
             in Question (getSummaryString w1 s) \<in> set (fst (script w1))
                \<and> script w1 = (wizardEvents w1 [exampleTemplate] s @ fst (createProject w1 s),
                                 endingOf (snd (createProject w1 s)))"
    using i wa by blast
  then have b: "Question (getSummaryString w1
                   (exampleCreated\<lparr>userName := ''Unknown'', userEmail := []\<rparr>))
                \<in> set (fst (script w1))"
    unfolding Let_def s by (rule conjunct1)
  have c: "snd (script w1) = ExitCode 0" unfolding w1_def by code_simp
  show ?thesis using i a b c unfolding w1_def by (intro conjI)
qed

text \<open>
  Claim C8. In the Substitute phase the entries are independent: \<^verbatim>\<open>filterFiles\<close> is
  fulfilled with one outcome per entry, each the outcome of that entry's own
  \<^verbatim>\<open>filterFile\<close>, and every entry's effects take place whatever happens to the others: its
  file is read, and written when the read succeeds. In the Cleanup phase the three
  removals are all attempted and \<^verbatim>\<open>removeTemplateFiles\<close> is fulfilled with their three
  outcomes; no failed read, write or removal keeps \<^verbatim>\<open>createProject\<close> from returning after
  the success message.
\<close>

theorem outcomes_settle_all:
  "(\<forall>project. templateJson w = Inr project
      \<longrightarrow> snd (filterFiles w dir s)
            = Returns (map (\<lambda>fileEntry. snd (filterFile w fileEntry dir s)) project)
          \<and> fst (filterFiles w dir s)
            = ReadFileSync (pathResolve w dir ''__template.json'')
              # concat (map (\<lambda>fileEntry. fst (filterFile w fileEntry dir s)) project))
   \<and> (\<forall>fileEntry. fst (filterFile w fileEntry dir s) \<noteq> []
        \<and> hd (fst (filterFile w fileEntry dir s))
            = ReadFile (pathResolve w dir (file' fileEntry)))
   \<and> (\<forall>fileEntry fileData. readFile w (pathResolve w dir (file' fileEntry)) = Inr fileData
        \<longrightarrow> WriteFile (pathResolve w dir (file' fileEntry))
              (filterFileData w s fileData (keywords' fileEntry))
            \<in> set (fst (filterFile w fileEntry dir s)))
   \<and> fst (removeTemplateFiles w dir)
       = [Unlink (pathResolve w dir ''__template.json''),
          Unlink (pathResolve w dir ''LICENSE''),
          Rm (pathResolve w dir ''.git'')]
   \<and> snd (removeTemplateFiles w dir)
       = Returns [settle (unlink w (pathResolve w dir ''__template.json'')),
                  settle (unlink w (pathResolve w dir ''LICENSE'')),
                  settle (rm w (pathResolve w dir ''.git''))]
   \<and> (\<forall>project. \<not> existsSync w (id' s) \<and> gitClone w = None \<and> templateJson w = Inr project
        \<longrightarrow> snd (createProject w s) = Returns ()
            \<and> Log successMessage \<in> set (fst (createProject w s)))"
proof (intro conjI allI impI)
  fix project assume p: "templateJson w = Inr project"
  then show "snd (filterFiles w dir s)
             = Returns (map (\<lambda>fileEntry. snd (filterFile w fileEntry dir s)) project)"
    by (simp add: filterFiles_def Let_def comp_def)
  from p show "fst (filterFiles w dir s)
               = ReadFileSync (pathResolve w dir ''__template.json'')
                 # concat (map (\<lambda>fileEntry. fst (filterFile w fileEntry dir s)) project)"
    by (simp add: filterFiles_def Let_def comp_def)
next
  fix fileEntry :: fileConfig
  show "fst (filterFile w fileEntry dir s) \<noteq> []"
    by (simp add: filterFile_def Let_def split: sum.splits)
  show "hd (fst (filterFile w fileEntry dir s))
        = ReadFile (pathResolve w dir (file' fileEntry))"
    by (simp add: filterFile_def Let_def split: sum.splits)
next
  fix fileEntry :: fileConfig and fileData
  assume "readFile w (pathResolve w dir (file' fileEntry)) = Inr fileData"
  then show "WriteFile (pathResolve w dir (file' fileEntry))
               (filterFileData w s fileData (keywords' fileEntry))
             \<in> set (fst (filterFile w fileEntry dir s))"
    by (simp add: filterFile_def Let_def)
next
  show "fst (removeTemplateFiles w dir)
        = [Unlink (pathResolve w dir ''__template.json''),
           Unlink (pathResolve w dir ''LICENSE''),
           Rm (pathResolve w dir ''.git'')]"
    by (simp add: removeTemplateFiles_def)
next
  show "snd (removeTemplateFiles w dir)
        = Returns [settle (unlink w (pathResolve w dir ''__template.json'')),
                   settle (unlink w (pathResolve w dir ''LICENSE'')),
                   settle (rm w (pathResolve w dir ''.git''))]"
    by (simp add: removeTemplateFiles_def)
next
  fix project
  assume h: "\<not> existsSync w (id' s) \<and> gitClone w = None \<and> templateJson w = Inr project"
  then show "snd (createProject w s) = Returns ()"
    using createProject_completes [of w s project] by simp
  from h show "Log successMessage \<in> set (fst (createProject w s))"
    using createProject_completes [of w s project] by simp
qed

theorem outcomes_settle_all_witness:
  "snd (filterFiles exampleWorld ''/home/jo/my-cool-app'' exampleCreated)
     = Returns [Rejected ''ENOENT'', Fulfilled]
   \<and> WriteFile ''/home/jo/my-cool-app/README.md''
        (''# my-cool-app'' @ [CHR 0x0A] @ ''Created 1/5/2024 (en-US)'')
       \<in> set (fst (filterFile exampleWorld
                     \<lparr>file' = ''README.md'',
                      keywords' = [''webstart-project-id'', ''webstart-project-setupdate'']\<rparr>
                     ''/home/jo/my-cool-app'' exampleCreated))
   \<and> snd (removeTemplateFiles (exampleWorld\<lparr>unlink := (\<lambda>_. Some ''ENOENT'')\<rparr>)
            ''/home/jo/my-cool-app'')
       = Returns [Rejected ''ENOENT'', Rejected ''ENOENT'', Fulfilled]
   \<and> snd (createProject (exampleWorld\<lparr>unlink := (\<lambda>_. Some ''ENOENT'')\<rparr>) exampleCreated)
       = Returns ()"
proof -
  define readme where "readme = \<lparr>file' = ''README.md'',
      keywords' = [''webstart-project-id'', ''webstart-project-setupdate'']\<rparr>"
  define w2 where "w2 = exampleWorld\<lparr>unlink := (\<lambda>_. Some ''ENOENT'')\<rparr>"
  note t1 = outcomes_settle_all [of exampleWorld "''/home/jo/my-cool-app''" exampleCreated]
  note t2 = outcomes_settle_all [of w2 "''/home/jo/my-cool-app''" exampleCreated]
  have p: "templateJson exampleWorld
           = Inr [\<lparr>file' = ''missing.txt'', keywords' = [''webstart-project-name'']\<rparr>, readme]"
    by (simp add: exampleWorld_def readme_def)
  have o: "map (\<lambda>fileEntry. snd (filterFile exampleWorld fileEntry ''/home/jo/my-cool-app''
                                   exampleCreated))
             [\<lparr>file' = ''missing.txt'', keywords' = [''webstart-project-name'']\<rparr>, readme]
           = [Rejected ''ENOENT'', Fulfilled]"
    unfolding readme_def by code_simp
  have a: "snd (filterFiles exampleWorld ''/home/jo/my-cool-app'' exampleCreated)
           = Returns [Rejected ''ENOENT'', Fulfilled]"
    using t1 p o by simp
  have r: "readFile exampleWorld (pathResolve exampleWorld ''/home/jo/my-cool-app''
                                   (file' readme))
           = Inr (''# webstart-project-id'' @ [CHR 0x0A] @ ''Created webstart-project-setupdate'')"
    by (simp add: exampleWorld_def readme_def)
  have d: "filterFileData exampleWorld exampleCreated
             (''# webstart-project-id'' @ [CHR 0x0A] @ ''Created webstart-project-setupdate'')
             (keywords' readme)
           = ''# my-cool-app'' @ [CHR 0x0A] @ ''Created 1/5/2024 (en-US)''"
    unfolding readme_def by code_simp
  have pr: "pathResolve exampleWorld ''/home/jo/my-cool-app'' (file' readme)
            = ''/home/jo/my-cool-app/README.md''"
    by (simp add: exampleWorld_def readme_def)
  from t1 have "\<forall>fileEntry fileData.
      readFile exampleWorld (pathResolve exampleWorld ''/home/jo/my-cool-app'' (file' fileEntry))
        = Inr fileData
      \<longrightarrow> WriteFile (pathResolve exampleWorld ''/home/jo/my-cool-app'' (file' fileEntry))
            (filterFileData exampleWorld exampleCreated fileData (keywords' fileEntry))
          \<in> set (fst (filterFile exampleWorld fileEntry ''/home/jo/my-cool-app''
                        exampleCreated))"
    by (elim conjE)
  then have "WriteFile (pathResolve exampleWorld ''/home/jo/my-cool-app'' (file' readme))
            (filterFileData exampleWorld exampleCreated
               (''# webstart-project-id'' @ [CHR 0x0A] @ ''Created webstart-project-setupdate'')
               (keywords' readme))
          \<in> set (fst (filterFile exampleWorld readme ''/home/jo/my-cool-app'' exampleCreated))"
    using r by blast
  then have b: "WriteFile ''/home/jo/my-cool-app/README.md''
                  (''# my-cool-app'' @ [CHR 0x0A] @ ''Created 1/5/2024 (en-US)'')
                \<in> set (fst (filterFile exampleWorld readme ''/home/jo/my-cool-app''
                              exampleCreated))"
    unfolding d pr .
  from t2 have "snd (removeTemplateFiles w2 ''/home/jo/my-cool-app'')
       = Returns [settle (unlink w2 (pathResolve w2 ''/home/jo/my-cool-app'' ''__template.json'')),
                  settle (unlink w2 (pathResolve w2 ''/home/jo/my-cool-app'' ''LICENSE'')),
                  settle (rm w2 (pathResolve w2 ''/home/jo/my-cool-app'' ''.git''))]"
    by (elim conjE)
  then have c: "snd (removeTemplateFiles w2 ''/home/jo/my-cool-app'')
                = Returns [Rejected ''ENOENT'', Rejected ''ENOENT'', Fulfilled]"
    by (simp add: w2_def exampleWorld_def settle_def)
  have "\<not> existsSync w2 (id' exampleCreated) \<and> gitClone w2 = None
        \<and> templateJson w2
            = Inr [\<lparr>file' = ''missing.txt'', keywords' = [''webstart-project-name'']\<rparr>, readme]"
    by (simp add: w2_def exampleWorld_def readme_def)
  moreover from t2
  have "\<forall>project. \<not> existsSync w2 (id' exampleCreated) \<and> gitClone w2 = None
                   \<and> templateJson w2 = Inr project
        \<longrightarrow> snd (createProject w2 exampleCreated) = Returns ()
            \<and> Log successMessage \<in> set (fst (createProject w2 exampleCreated))"
    by (elim conjE)
  ultimately have e: "snd (createProject w2 exampleCreated) = Returns ()" by blast
  show ?thesis using a b c e unfolding w2_def readme_def by (intro conjI)
qed

text \<open>
  Claim C10. When the questions are answered, the directory is free, the clone succeeds
  and the manifest is read, the program prints the success message last and exits with
  status 0, whatever the reads and writes of the Substitute phase do (they are arbitrary
  here): the outcomes that \<^verbatim>\<open>filterFiles\<close> collects are not looked at.
\<close>

theorem substitution_failures_ignored:
  assumes "wizardAnswers w ts k n"
    and "\<not> existsSync w (convertStringToProjectId (trim n))"
    and "gitClone w = None"
    and "templateJson w = Inr project"
  shows "snd (script (w\<lparr>readFile := reads, writeFile := writes\<rparr>)) = ExitCode 0
   \<and> last (fst (script (w\<lparr>readFile := reads, writeFile := writes\<rparr>))) = Log successMessage"
proof -
  define v where "v = w\<lparr>readFile := reads, writeFile := writes\<rparr>"
  have wa: "wizardAnswers v ts k n" using assms(1) by (simp add: wizardAnswers_def v_def)
  obtain s where i: "id' s = convertStringToProjectId (trim n)"
    and sc: "script v = (wizardEvents v ts s @ fst (createProject v s),
                         endingOf (snd (createProject v s)))"
    using script_created [OF wa] by blast
  have "\<not> existsSync v (id' s)" "gitClone v = None" "templateJson v = Inr project"
    using assms(2-4) i by (simp_all add: v_def)
  note cp = createProject_completes [OF this]
  have "snd (script v) = ExitCode 0" unfolding sc cp by (simp add: endingOf_def)
  moreover have "last (fst (script v)) = Log successMessage" unfolding sc cp by simp
  ultimately show ?thesis unfolding v_def by simp
qed

theorem substitution_failures_ignored_witness:
  "snd (script (exampleWorld\<lparr>readFile := (\<lambda>_. Inl ''EACCES''),
                             writeFile := (\<lambda>_. Some ''EROFS'')\<rparr>)) = ExitCode 0
   \<and> last (fst (script (exampleWorld\<lparr>readFile := (\<lambda>_. Inl ''EACCES''),
                                     writeFile := (\<lambda>_. Some ''EROFS'')\<rparr>)))
       = Log successMessage"
proof -
  have e: "\<not> existsSync exampleWorld (convertStringToProjectId (trim ''  My Cool App  ''))"
    by (simp add: exampleWorld_def)
  have c: "gitClone exampleWorld = None" by (simp add: exampleWorld_def)
  have p: "templateJson exampleWorld
           = Inr [\<lparr>file' = ''missing.txt'', keywords' = [''webstart-project-name'']\<rparr>,
                  \<lparr>file' = ''README.md'',
                   keywords' = [''webstart-project-id'', ''webstart-project-setupdate'']\<rparr>]"
    by (simp add: exampleWorld_def)
  show ?thesis by (rule substitution_failures_ignored [OF example_answers e c p])
qed

end
